theory Spec2Isabelle
  imports Complex_Main "HOL-Library.Char_ord" "HOL-Library.List_Lexorder"
    "HOL-Library.Multiset" "HOL-Library.Word"
begin

section \<open>The dynamic metric registry of \<^verbatim>\<open>app/pingpong.go\<close>\<close>

text \<open>
  The development embeds the part of \<^verbatim>\<open>pingpong.go\<close> that creates, updates and prints
  custom counters: \<^verbatim>\<open>getKeys\<close>, \<^verbatim>\<open>createMetricLine\<close>, \<^verbatim>\<open>getMetricValue\<close>,
  \<^verbatim>\<open>createNewMetric\<close>, \<^verbatim>\<open>updateMetric\<close> and the loops of \<^verbatim>\<open>createHandler\<close> and
  \<^verbatim>\<open>updateHandler\<close> that run after the request body has been decoded into a
  \<^verbatim>\<open>MetricsInfo\<close> value.

  Conventions.
  \<^item> A Go \<^verbatim>\<open>string\<close> is a list of bytes, here \<^typ>\<open>string\<close>; strings are compared byte by
    byte (\<^verbatim>\<open>sort.Strings\<close>), which is the lexicographic order on \<^typ>\<open>char list\<close>.
  \<^item> A Go \<^verbatim>\<open>map[string]string\<close> is an association list whose keys are pairwise
    distinct; the order of the list is one order in which \<^verbatim>\<open>range\<close> may visit the map.
  \<^item> A \<^verbatim>\<open>float64\<close> is a value of the type \<open>float64\<close> below: the rational number that a
    finite value denotes, negative zero, an infinity or NaN. The sum of two \<^verbatim>\<open>float64\<close>
    values, which the machine rounds, is a parameter of the model; nothing is assumed of it.
  \<^item> A \<^verbatim>\<open>uint64\<close> is a \<^typ>\<open>64 word\<close>, whose sum wraps around at \<open>2 ^ 64\<close>.
  \<^item> The global \<^verbatim>\<open>metricsMapPrometheus\<close> is passed in and returned.
  \<^item> \<^verbatim>\<open>logger.Printf\<close> appends an event to a log that is returned with the result.
  \<^item> Library calls whose code is not part of the repository are either parameters
    (record \<open>env\<close>) or small boundary models, each described where it is defined.
\<close>

subsection \<open>Data\<close>

text \<open>\<^verbatim>\<open>type Metric struct { Labels map[string]string; TimestampMs string; Value string }\<close>\<close>

record Metric =
  Labels :: "(string \<times> string) list"
  TimestampMs :: string
  Value :: string

text \<open>\<^verbatim>\<open>type MetricInfo struct { Name, Help, Type string; Metrics []Metric }\<close>\<close>

record MetricInfo =
  Name :: string
  Help :: string
  Type :: string
  Metrics :: "Metric list"

text \<open>
  \<^verbatim>\<open>type MetricMeta struct { Name string; Labels []string }\<close>. The fields are prefixed,
  since \<open>Name\<close> and \<open>Labels\<close> are already fields of the records above.
\<close>

record MetricMeta =
  MetaName :: string
  MetaLabels :: "string list"

text \<open>
  The values of a \<^verbatim>\<open>float64\<close>: \<open>Finite x\<close> is the finite value that denotes the rational
  number \<open>x\<close> (positive zero is \<open>Finite 0\<close>), \<open>NegZero\<close> is \<^verbatim>\<open>-0\<close>, and the other three are
  the two infinities and NaN. Every finite \<^verbatim>\<open>float64\<close> is \<open>Finite x\<close> for one \<open>x\<close>; the type
  has more finite values than the machine has, which only widens what is proved of all
  values.
\<close>

datatype float64 = Finite rat | NegZero | PosInf | NegInf | NaN

text \<open>
  Boundary model of the \<^verbatim>\<open>counter\<close> struct of the Prometheus client library, the
  implementation of \<^verbatim>\<open>prometheus.Counter\<close>: the library keeps the sum of the whole numbers
  added so far in the \<^verbatim>\<open>uint64\<close> field \<^verbatim>\<open>valInt\<close> and the sum of the other values in the
  \<^verbatim>\<open>float64\<close> field \<^verbatim>\<open>valBits\<close>.
\<close>

record counter =
  valInt :: "64 word"
  valBits :: float64

text \<open>
  Boundary model of \<^verbatim>\<open>*prometheus.CounterVec\<close>: the variable label names of its
  descriptor, and its children, one counter for each vector of label values (the values
  in the order of the label names).
\<close>

record CounterVec =
  variableLabels :: "string list"
  children :: "string list \<rightharpoonup> counter"

text \<open>\<^verbatim>\<open>type CustomMetricPrometheus struct { meta MetricMeta; obj *prometheus.CounterVec }\<close>\<close>

record CustomMetricPrometheus =
  meta :: MetricMeta
  obj :: CounterVec

text \<open>\<^verbatim>\<open>type MetricLineInfo struct { Name string; MetricExpo string }\<close>\<close>

record MetricLineInfo =
  LineName :: string
  MetricExpo :: string

text \<open>\<^verbatim>\<open>metricsMapPrometheus = make(map[string]*CustomMetricPrometheus)\<close>\<close>

type_synonym registry = "string \<rightharpoonup> CustomMetricPrometheus"

text \<open>
  The four messages the two registry functions hand to \<^verbatim>\<open>logger.Printf\<close>:
  \<^verbatim>\<open>"Error parsing metric value: %v"\<close>, \<^verbatim>\<open>"Error registering metric: %v"\<close>,
  \<^verbatim>\<open>"Error getting metric: %v"\<close> and \<^verbatim>\<open>"Metric %s not found"\<close>.
\<close>

datatype log_event =
  ErrorParsingMetricValue
  | ErrorRegisteringMetric
  | ErrorGettingMetric
  | MetricNotFound string

text \<open>
  The library functions and machine operations that are parameters of the model.
  \<^item> \<open>ParseFloat s\<close> is \<^verbatim>\<open>strconv.ParseFloat(s, 64)\<close>: \<open>None\<close> when it returns an error.
  \<^item> \<open>Register name labelNames\<close> tells whether \<^verbatim>\<open>s.registry.Register\<close> accepts a new
    counter vector of that name and those label names. The call is made only for a name
    that \<^verbatim>\<open>metricsMapPrometheus\<close> does not hold, so its outcome is a function of the
    descriptor (and of the collectors \<^verbatim>\<open>NewServer\<close> registers at start).
  \<^item> \<open>Quote v\<close> is the text \<^verbatim>\<open>%q\<close> prints for the string \<open>v\<close> (\<^verbatim>\<open>strconv.Quote\<close>).
  \<^item> \<open>addFloat64 a b\<close> is the \<^verbatim>\<open>float64\<close> sum \<^verbatim>\<open>a + b\<close>, rounded as the machine rounds it.
  \<^item> \<open>uint64Other v\<close> is the conversion \<^verbatim>\<open>uint64(v)\<close> of a \<^verbatim>\<open>float64\<close> whose integer part is
    not a \<^verbatim>\<open>uint64\<close> (a value of \<open>2 ^ 64\<close> or more, an infinity, NaN); the language leaves
    the result to the implementation.
\<close>

record env =
  ParseFloat :: "string \<Rightarrow> float64 option"
  Register :: "string \<Rightarrow> string list \<Rightarrow> bool"
  Quote :: "string \<Rightarrow> string"
  addFloat64 :: "float64 \<Rightarrow> float64 \<Rightarrow> float64"
  uint64Other :: "float64 \<Rightarrow> 64 word"

subsection \<open>Helper functions\<close>

text \<open>\<^verbatim>\<open>getKeys\<close>: the keys of the map, sorted with \<^verbatim>\<open>sort.Strings\<close>.\<close>

definition getKeys :: "(string \<times> string) list \<Rightarrow> string list" where
  "getKeys m = sort (map fst m)"

text \<open>\<^verbatim>\<open>strings.Join(elems, sep)\<close>\<close>

fun Join :: "string list \<Rightarrow> string \<Rightarrow> string" where
  "Join [] sep = []"
| "Join [x] sep = x"
| "Join (x # y # ys) sep = x @ sep @ Join (y # ys) sep"

text \<open>
  \<^verbatim>\<open>createMetricLine\<close>: every label becomes the text \<^verbatim>\<open>fmt.Sprintf("%s=%q", k, v)\<close>
  (\<open>labelPair\<close>), the texts are sorted with \<^verbatim>\<open>sort.Strings\<close>, joined with commas and put
  between braces after the name; a non-empty value follows after a blank. The line ends
  with a newline.
\<close>

definition labelPair :: "(string \<Rightarrow> string) \<Rightarrow> string \<times> string \<Rightarrow> string" where
  "labelPair quote kv = fst kv @ ''='' @ quote (snd kv)"

definition createMetricLine ::
  "(string \<Rightarrow> string) \<Rightarrow> string \<Rightarrow> (string \<times> string) list \<Rightarrow> string \<Rightarrow> string" where
  \<open>createMetricLine quote name labels val =
     (let pairs = sort (map (labelPair quote) labels) in
      if val \<noteq> ''''
      then name @ ''{'' @ Join pairs '','' @ ''} '' @ val @ [CHR 0x0A]
      else name @ ''{'' @ Join pairs '','' @ ''}'' @ [CHR 0x0A])\<close>

text \<open>
  \<^verbatim>\<open>fmt.Sprintf("%.0f", value)\<close>. For a finite value: the sign, then the magnitude rounded
  to an integer, a tie going to the even neighbour, in decimal digits (the library
  converts the exact binary value, so no other rounding comes in). Negative zero is
  \<^verbatim>\<open>-0\<close>, and the infinities and NaN are printed by name. \<open>digitChar\<close> is the digit of a
  number below sixteen.
\<close>

definition digitChar :: "nat \<Rightarrow> char" where
  "digitChar d = ''0123456789abcdef'' ! d"

fun digits10 :: "nat \<Rightarrow> string" where
  "digits10 n =
     (if n < 10 then [digitChar n] else digits10 (n div 10) @ [digitChar (n mod 10)])"

declare digits10.simps [simp del]

definition round_half_even :: "rat \<Rightarrow> int" where
  "round_half_even x =
     (let f = \<lfloor>x\<rfloor>; d = x - of_int f in
      if d < 1 / 2 then f else if 1 / 2 < d then f + 1 else if even f then f else f + 1)"

fun Sprintf_0f :: "float64 \<Rightarrow> string" where
  "Sprintf_0f (Finite x) =
     (if x < 0 then ''-'' else '''') @ digits10 (nat (round_half_even \<bar>x\<bar>))"
| "Sprintf_0f NegZero = ''-0''"
| "Sprintf_0f PosInf = ''+Inf''"
| "Sprintf_0f NegInf = ''-Inf''"
| "Sprintf_0f NaN = ''NaN''"

declare Sprintf_0f.simps(1) [simp del]

subsection \<open>Operations on \<^verbatim>\<open>float64\<close> and \<^verbatim>\<open>uint64\<close>\<close>

text \<open>The comparison \<^verbatim>\<open>v < 0\<close>: true of the negative finite values and of \<^verbatim>\<open>-Inf\<close>.\<close>

fun lessZero :: "float64 \<Rightarrow> bool" where
  "lessZero (Finite x) = (x < 0)"
| "lessZero NegInf = True"
| "lessZero NegZero = False"
| "lessZero PosInf = False"
| "lessZero NaN = False"

text \<open>
  The comparison \<^verbatim>\<open>a == b\<close>: NaN equals nothing, the two zeros are equal, and otherwise
  equal values are the same value.
\<close>

fun unsignedZero :: "float64 \<Rightarrow> float64" where
  "unsignedZero NegZero = Finite 0"
| "unsignedZero (Finite x) = Finite x"
| "unsignedZero PosInf = PosInf"
| "unsignedZero NegInf = NegInf"
| "unsignedZero NaN = NaN"

definition equalFloat64 :: "float64 \<Rightarrow> float64 \<Rightarrow> bool" where
  "equalFloat64 a b = (a \<noteq> NaN \<and> b \<noteq> NaN \<and> unsignedZero a = unsignedZero b)"

text \<open>
  The conversion \<^verbatim>\<open>float64(ival)\<close> of a \<^verbatim>\<open>uint64\<close>. A number below \<open>2 ^ 53\<close> is a
  \<^verbatim>\<open>float64\<close>. A number of \<open>53 + k\<close> bits, with \<open>0 < k\<close>, is rounded to the nearest multiple
  of \<open>2 ^ k\<close>, a tie going to the multiple whose quotient is even (\<open>roundToFloat64\<close>, on the
  number itself). The result is a whole number in every case.
\<close>

definition roundToFloat64 :: "nat \<Rightarrow> nat" where
  "roundToFloat64 n =
     (let k = length (filter (\<lambda>j. 2 ^ (53 + j) \<le> n) [0..<11]) in
      if k = 0 then n
      else
        let q = n div 2 ^ k; r = n mod 2 ^ k; h = 2 ^ (k - 1) in
        (if r < h then q else if h < r then q + 1 else if even q then q else q + 1) * 2 ^ k)"

definition float64OfUint64 :: "64 word \<Rightarrow> float64" where
  "float64OfUint64 w = Finite (of_nat (roundToFloat64 (unat w)))"

text \<open>
  The conversion \<^verbatim>\<open>uint64(v)\<close> of a \<^verbatim>\<open>float64\<close>: the fraction is discarded. When what is
  left is not a \<^verbatim>\<open>uint64\<close>, the result is that of the implementation, \<open>other v\<close>.
\<close>

definition uint64OfFloat64 :: "(float64 \<Rightarrow> 64 word) \<Rightarrow> float64 \<Rightarrow> 64 word" where
  "uint64OfFloat64 other v =
     (case v of
        Finite x \<Rightarrow> if - 1 < x \<and> x < 2 ^ 64 then of_nat (nat \<lfloor>x\<rfloor>) else other v
      | NegZero \<Rightarrow> 0
      | PosInf \<Rightarrow> other v
      | NegInf \<Rightarrow> other v
      | NaN \<Rightarrow> other v)"

subsection \<open>The counter\<close>

text \<open>A new counter: both fields are zero.\<close>

definition newCounter :: counter where
  "newCounter = \<lparr>valInt = 0, valBits = Finite 0\<rparr>"

text \<open>
  Boundary model of \<^verbatim>\<open>(*counter).Add(v)\<close>. The library panics when \<^verbatim>\<open>v < 0\<close> (\<open>None\<close>).
  Otherwise it computes \<^verbatim>\<open>ival := uint64(v)\<close>; when \<^verbatim>\<open>float64(ival) == v\<close> it adds \<^verbatim>\<open>ival\<close>
  to \<^verbatim>\<open>valInt\<close>, and when not it replaces \<^verbatim>\<open>valBits\<close> by the \<^verbatim>\<open>float64\<close> sum of
  \<^verbatim>\<open>valBits\<close> and \<^verbatim>\<open>v\<close>.
\<close>

definition counterAdd :: "env \<Rightarrow> counter \<Rightarrow> float64 \<Rightarrow> counter option" where
  "counterAdd E c v =
     (if lessZero v then None
      else
        let ival = uint64OfFloat64 (uint64Other E) v in
        if equalFloat64 (float64OfUint64 ival) v
        then Some (c\<lparr>valInt := valInt c + ival\<rparr>)
        else Some (c\<lparr>valBits := addFloat64 E (valBits c) v\<rparr>))"

text \<open>Boundary model of \<^verbatim>\<open>(*counter).Inc()\<close>: one is added to \<^verbatim>\<open>valInt\<close>.\<close>

definition counterInc :: "counter \<Rightarrow> counter" where
  "counterInc c = c\<lparr>valInt := valInt c + 1\<rparr>"

text \<open>
  Boundary model of the value that \<^verbatim>\<open>(*counter).Write\<close> reports, which
  \<^verbatim>\<open>GetCounter().GetValue()\<close> returns: the \<^verbatim>\<open>float64\<close> sum of \<^verbatim>\<open>valBits\<close> and
  \<^verbatim>\<open>float64(valInt)\<close>.
\<close>

definition counterGet :: "env \<Rightarrow> counter \<Rightarrow> float64" where
  "counterGet E c = addFloat64 E (valBits c) (float64OfUint64 (valInt c))"

text \<open>
  \<^verbatim>\<open>getMetricValue\<close> on one counter: \<^verbatim>\<open>collect\<close> yields the counter itself, which is not
  a histogram, so the sum \<^verbatim>\<open>value\<close>, which starts at zero, receives the value of the
  counter once.
\<close>

definition getMetricValue :: "env \<Rightarrow> counter \<Rightarrow> float64" where
  "getMetricValue E c = addFloat64 E (Finite 0) (counterGet E c)"

subsection \<open>The counter vector\<close>

text \<open>\<^verbatim>\<open>prometheus.NewCounterVec(opts, labelNames)\<close>: a vector without children.\<close>

definition NewCounterVec :: "string list \<Rightarrow> CounterVec" where
  "NewCounterVec labelNames = \<lparr>variableLabels = labelNames, children = Map.empty\<rparr>"

text \<open>
  Boundary model of \<^verbatim>\<open>(*CounterVec).GetMetricWith(labels)\<close>. The library returns an error
  when the number of labels differs from the number of label names of the vector, or
  when a label name of the vector is not a key of \<open>labels\<close>. Otherwise it returns the
  child for the label values (\<open>labelValues\<close>: the value of each label name, in the order
  of the names), creating a new counter when there is none. The result is the vector
  after the call and the key of the child. (The library also rejects a label
  value that is not valid UTF-8; the values here come out of \<^verbatim>\<open>encoding/json\<close>, which
  yields valid UTF-8 only.)
\<close>

definition labelValues :: "string list \<Rightarrow> (string \<times> string) list \<Rightarrow> string list option" where
  "labelValues names labels = those (map (map_of labels) names)"

definition GetMetricWith ::
  "CounterVec \<Rightarrow> (string \<times> string) list \<Rightarrow> (CounterVec \<times> string list) option" where
  "GetMetricWith vec labels =
     (if length labels \<noteq> length (variableLabels vec) then None
      else case labelValues (variableLabels vec) labels of
             None \<Rightarrow> None
           | Some vals \<Rightarrow>
               (case children vec vals of
                  None \<Rightarrow> Some (vec\<lparr>children := (children vec)(vals \<mapsto> newCounter)\<rparr>, vals)
                | Some c \<Rightarrow> Some (vec, vals)))"

text \<open>The child with key \<open>vals\<close>; a new counter when the vector has no such child yet.\<close>

definition childCounter :: "CounterVec \<Rightarrow> string list \<Rightarrow> counter" where
  "childCounter vec vals = (case children vec vals of None \<Rightarrow> newCounter | Some c \<Rightarrow> c)"

text \<open>The vector with \<open>c\<close> as its child of key \<open>vals\<close>.\<close>

definition setChild :: "CounterVec \<Rightarrow> string list \<Rightarrow> counter \<Rightarrow> CounterVec" where
  "setChild vec vals c = vec\<lparr>children := (children vec)(vals \<mapsto> c)\<rparr>"

subsection \<open>Create\<close>

text \<open>What one round of a loop over the samples does.\<close>

datatype outcome =
  Logged log_event
  | Line MetricLineInfo
  | Panic

text \<open>
  The body of the loop of \<^verbatim>\<open>createNewMetric\<close> for one sample \<open>item\<close> of the family
  \<open>name\<close>: parse the value; register the family from the sorted keys of this sample when
  the map has no entry for the name; fetch the counter for the labels; add the value; make
  the line. Each \<^verbatim>\<open>continue\<close> is a \<open>Logged\<close> outcome with the map as it was. When
  \<^verbatim>\<open>counter.Add\<close> panics, the map is as the steps before have left it.
\<close>

definition createItem :: "env \<Rightarrow> string \<Rightarrow> registry \<Rightarrow> Metric \<Rightarrow> registry \<times> outcome" where
  "createItem E name m item =
     (case ParseFloat E (Value item) of
        None \<Rightarrow> (m, Logged ErrorParsingMetricValue)
      | Some v \<Rightarrow>
          let labelNames = getKeys (Labels item) in
          if m name = None \<and> \<not> Register E name labelNames
          then (m, Logged ErrorRegisteringMetric)
          else
            let m1 = (if m name = None
                      then m(name \<mapsto> \<lparr>meta = \<lparr>MetaName = name, MetaLabels = labelNames\<rparr>,
                                         obj = NewCounterVec labelNames\<rparr>)
                      else m) in
            (case m1 name of
               None \<Rightarrow> (m1, Panic)
             | Some metric \<Rightarrow>
                 (case GetMetricWith (obj metric) (Labels item) of
                    None \<Rightarrow> (m1, Logged ErrorGettingMetric)
                  | Some (vec, vals) \<Rightarrow>
                      (case counterAdd E (childCounter vec vals) v of
                         None \<Rightarrow> (m1(name \<mapsto> metric\<lparr>obj := vec\<rparr>), Panic)
                       | Some c \<Rightarrow>
                           (m1(name \<mapsto> metric\<lparr>obj := setChild vec vals c\<rparr>),
                            Line \<lparr>LineName = name,
                                  MetricExpo = createMetricLine (Quote E) name (Labels item)
                                                 (Sprintf_0f v)\<rparr>)))))"

text \<open>
  The loop \<^verbatim>\<open>for _, item := range f.Metrics\<close>: the map after the loop, the log, and the
  lines of \<open>result\<close>, or \<open>None\<close> when a round panicked (the later samples are not visited).
\<close>

fun createLoop ::
  "env \<Rightarrow> string \<Rightarrow> registry \<Rightarrow> Metric list \<Rightarrow>
   registry \<times> log_event list \<times> MetricLineInfo list option" where
  "createLoop E name m [] = (m, [], Some [])"
| "createLoop E name m (item # items) =
     (case createItem E name m item of
        (m', Panic) \<Rightarrow> (m', [], None)
      | (m', Logged e) \<Rightarrow>
          (case createLoop E name m' items of (m'', lg, r) \<Rightarrow> (m'', e # lg, r))
      | (m', Line l) \<Rightarrow>
          (case createLoop E name m' items of (m'', lg, r) \<Rightarrow> (m'', lg, map_option ((#) l) r)))"

definition createNewMetric ::
  "env \<Rightarrow> registry \<Rightarrow> MetricInfo \<Rightarrow> registry \<times> log_event list \<times> MetricLineInfo list option" where
  "createNewMetric E m f = createLoop E (Name f) m (Metrics f)"


subsection \<open>Update\<close>

text \<open>
  The body of the loop of \<^verbatim>\<open>updateMetric\<close>: fetch the counter of the sample's labels from
  the vector \<open>vec\<close> of the family, increment it, read it back and make the line. The value
  of the sample is not read. The outcome is the logged event or the line.
\<close>

definition updateItem ::
  "env \<Rightarrow> string \<Rightarrow> CounterVec \<Rightarrow> Metric \<Rightarrow> CounterVec \<times> (log_event + MetricLineInfo)" where
  "updateItem E name vec0 item =
     (case GetMetricWith vec0 (Labels item) of
        None \<Rightarrow> (vec0, Inl ErrorGettingMetric)
      | Some (vec, vals) \<Rightarrow>
          let c = counterInc (childCounter vec vals);
              v = getMetricValue E c in
          (setChild vec vals c,
           Inr \<lparr>LineName = name,
                MetricExpo = createMetricLine (Quote E) name (Labels item) (Sprintf_0f v)\<rparr>))"

text \<open>The loop \<^verbatim>\<open>for _, item := range f.Metrics\<close> of \<^verbatim>\<open>updateMetric\<close>.\<close>

fun updateLoop ::
  "env \<Rightarrow> string \<Rightarrow> CounterVec \<Rightarrow> Metric list \<Rightarrow>
   CounterVec \<times> log_event list \<times> MetricLineInfo list" where
  "updateLoop E name vec [] = (vec, [], [])"
| "updateLoop E name vec (item # items) =
     (case updateItem E name vec item of
        (vec', Inl e) \<Rightarrow>
          (case updateLoop E name vec' items of (vec'', lg, r) \<Rightarrow> (vec'', e # lg, r))
      | (vec', Inr l) \<Rightarrow>
          (case updateLoop E name vec' items of (vec'', lg, r) \<Rightarrow> (vec'', lg, l # r)))"

text \<open>
  \<^verbatim>\<open>updateMetric\<close>: a name without an entry in the map is logged and nothing else
  happens; otherwise the loop runs on the vector of the entry.
\<close>

definition updateMetric ::
  "env \<Rightarrow> registry \<Rightarrow> MetricInfo \<Rightarrow> registry \<times> log_event list \<times> MetricLineInfo list" where
  "updateMetric E m f =
     (case m (Name f) of
        None \<Rightarrow> (m, [MetricNotFound (Name f)], [])
      | Some metric \<Rightarrow>
          (case updateLoop E (Name f) (obj metric) (Metrics f) of
             (vec, lg, r) \<Rightarrow> (m(Name f \<mapsto> metric\<lparr>obj := vec\<rparr>), lg, r)))"

subsection \<open>The handlers, after decoding\<close>

text \<open>
  The loop at the end of \<^verbatim>\<open>createHandler\<close> over the decoded families. For each family
  it calls \<^verbatim>\<open>createNewMetric\<close>, then writes \<^verbatim>\<open>"created metric...\n"\<close>, the lines and
  \<^verbatim>\<open>"\n"\<close>. The result is the map, the log, the bytes written and whether the handler
  ran to its end (\<open>False\<close>: a panic left it, with the bytes written before).
\<close>

fun createHandler ::
  "env \<Rightarrow> registry \<Rightarrow> MetricInfo list \<Rightarrow> registry \<times> log_event list \<times> string \<times> bool" where
  "createHandler E m [] = (m, [], [], True)"
| "createHandler E m (metric # rest) =
     (case createNewMetric E m metric of
        (m', lg, None) \<Rightarrow> (m', lg, [], False)
      | (m', lg, Some metricLines) \<Rightarrow>
          (case createHandler E m' rest of
             (m'', lg', w, fin) \<Rightarrow>
               (m'', lg @ lg',
                ''created metric...'' @ [CHR 0x0A] @ concat (map MetricExpo metricLines)
                  @ [CHR 0x0A] @ w,
                fin)))"

text \<open>The loop at the end of \<^verbatim>\<open>updateHandler\<close>: the lines of every family, nothing else.\<close>

fun updateHandler ::
  "env \<Rightarrow> registry \<Rightarrow> MetricInfo list \<Rightarrow> registry \<times> log_event list \<times> string" where
  "updateHandler E m [] = (m, [], [])"
| "updateHandler E m (metric # rest) =
     (case updateMetric E m metric of
        (m', lg, metricLines) \<Rightarrow>
          (case updateHandler E m' rest of
             (m'', lg', w) \<Rightarrow> (m'', lg @ lg', concat (map MetricExpo metricLines) @ w)))"


subsection \<open>Well-formed inputs and registries\<close>

text \<open>
  The labels of a sample are a Go map, so their keys are pairwise distinct.
\<close>

definition wfItem :: "Metric \<Rightarrow> bool" where
  "wfItem item = distinct (map fst (Labels item))"

text \<open>
  What holds of every entry that \<^verbatim>\<open>createNewMetric\<close> puts into the map: the label names
  of the vector are those of the meta data, and they are pairwise distinct (they are the
  sorted keys of a map).
\<close>

definition wfEntry :: "CustomMetricPrometheus \<Rightarrow> bool" where
  "wfEntry metric =
     (distinct (variableLabels (obj metric))
      \<and> MetaLabels (meta metric) = variableLabels (obj metric))"

definition wfRegistry :: "registry \<Rightarrow> bool" where
  "wfRegistry m = (\<forall>name metric. m name = Some metric \<longrightarrow> wfEntry metric)"


text \<open>
  What holds of every entry that \<^verbatim>\<open>createNewMetric\<close> puts into the map besides: the
  label names of the vector are in ascending order (\<^verbatim>\<open>getKeys\<close> sorts them), and
  \<^verbatim>\<open>s.registry.Register\<close> has accepted the vector under the name of the entry.
\<close>

definition acceptedEntry :: "env \<Rightarrow> string \<Rightarrow> CustomMetricPrometheus \<Rightarrow> bool" where
  "acceptedEntry E name metric =
     (sorted (variableLabels (obj metric)) \<and> distinct (variableLabels (obj metric))
      \<and> Register E name (variableLabels (obj metric)))"

definition acceptedRegistry :: "env \<Rightarrow> registry \<Rightarrow> bool" where
  "acceptedRegistry E m = (\<forall>name metric. m name = Some metric \<longrightarrow> acceptedEntry E name metric)"

subsection \<open>Observers\<close>

text \<open>
  The counter of the child \<open>vals\<close> of the family \<open>name\<close>: a new counter when the family
  or the child does not exist.
\<close>

definition counterOf :: "registry \<Rightarrow> string \<Rightarrow> string list \<Rightarrow> counter" where
  "counterOf m name vals =
     (case m name of None \<Rightarrow> newCounter | Some metric \<Rightarrow> childCounter (obj metric) vals)"

text \<open>
  The number that a text of decimal digits denotes, to read back the value field of a
  line.
\<close>

definition decimalValue :: "string \<Rightarrow> nat" where
  "decimalValue s = foldl (\<lambda>acc c. 10 * acc + (of_char c - 48)) 0 s"

subsection \<open>The token grammar of the specification\<close>

text \<open>
  Modelled from the spec: \<open>validateToken\<close>, the check of section 4.1, which the
  repository does not define (the code leaves the check of names to
  \<^verbatim>\<open>s.registry.Register\<close>, a library call). It is true iff the string matches
  \<^verbatim>\<open>[a-zA-Z_][a-zA-Z0-9_]*\<close>. No function of the model calls it; it serves to say of a
  name that the code accepts that it is outside this grammar.
\<close>

definition isLetter :: "char \<Rightarrow> bool" where
  "isLetter c = ((CHR ''a'' \<le> c \<and> c \<le> CHR ''z'') \<or> (CHR ''A'' \<le> c \<and> c \<le> CHR ''Z''))"

definition isDigit :: "char \<Rightarrow> bool" where
  "isDigit c = (CHR ''0'' \<le> c \<and> c \<le> CHR ''9'')"

definition validateToken :: "string \<Rightarrow> bool" where
  "validateToken s =
     (case s of
        [] \<Rightarrow> False
      | c # cs \<Rightarrow> (isLetter c \<or> c = CHR ''_'')
                  \<and> list_all (\<lambda>d. isLetter d \<or> isDigit d \<or> d = CHR ''_'') cs)"

subsection \<open>Instances of the parameters and data for the examples\<close>

text \<open>
  A finite part of the graph of \<^verbatim>\<open>strconv.ParseFloat\<close>. The examples below parse only
  strings of this table and the string \<^verbatim>\<open>abc\<close>, which \<^verbatim>\<open>ParseFloat\<close> rejects.
\<close>

definition ParseFloatTable :: "string \<Rightarrow> float64 option" where
  "ParseFloatTable =
     map_of [(''1'', Finite 1), (''3'', Finite 3), (''5'', Finite 5), (''2.5'', Finite (5 / 2)),
             (''-1'', Finite (- 1)), (''-2.5'', Finite (- (5 / 2))),
             (''1e19'', Finite 10000000000000000000)]"

text \<open>
  \<^verbatim>\<open>strconv.Quote\<close> on a string of ASCII bytes: the double quote and the backslash get a
  backslash, the other printable bytes stand for themselves, seven control bytes have a
  letter escape and the rest are written \<^verbatim>\<open>\x\<close> and two hexadecimal digits. (A byte above
  \<^verbatim>\<open>0x7f\<close> is printed here as the library prints a byte that is not UTF-8; the examples
  have none.)
\<close>

definition quoteByte :: "char \<Rightarrow> string" where
  "quoteByte c =
     (let n = (of_char c :: nat) in
      if c = CHR 0x22 \<or> c = CHR 0x5C then [CHR 0x5C, c]
      else if 32 \<le> n \<and> n < 127 then [c]
      else if n = 7 then [CHR 0x5C, CHR ''a'']
      else if n = 8 then [CHR 0x5C, CHR ''b'']
      else if n = 12 then [CHR 0x5C, CHR ''f'']
      else if n = 10 then [CHR 0x5C, CHR ''n'']
      else if n = 13 then [CHR 0x5C, CHR ''r'']
      else if n = 9 then [CHR 0x5C, CHR ''t'']
      else if n = 11 then [CHR 0x5C, CHR ''v'']
      else [CHR 0x5C, CHR ''x'', digitChar (n div 16), digitChar (n mod 16)])"

definition QuoteASCII :: "string \<Rightarrow> string" where
  "QuoteASCII s = [CHR 0x22] @ concat (map quoteByte s) @ [CHR 0x22]"

text \<open>
  The rule of the Prometheus client library for the names of a descriptor, in its
  scheme for legacy names: a metric name matches \<^verbatim>\<open>[a-zA-Z_:][a-zA-Z0-9_:]*\<close>, a label name
  matches \<^verbatim>\<open>[a-zA-Z_][a-zA-Z0-9_]*\<close> and does not begin with two underscores, and the label
  names are pairwise distinct. (Later versions of the library accept more names. The
  examples register only names that either scheme treats in the same way: the empty
  string, which both refuse as a metric name and as a label name, and names that both
  accept. None is the name of a collector that \<^verbatim>\<open>NewServer\<close> registers at start.)
\<close>

definition validMetricName :: "string \<Rightarrow> bool" where
  "validMetricName s =
     (case s of
        [] \<Rightarrow> False
      | c # cs \<Rightarrow> (isLetter c \<or> c = CHR ''_'' \<or> c = CHR '':'')
                  \<and> list_all (\<lambda>d. isLetter d \<or> isDigit d \<or> d = CHR ''_'' \<or> d = CHR '':'') cs)"

definition validLabelName :: "string \<Rightarrow> bool" where
  "validLabelName s =
     (case s of
        [] \<Rightarrow> False
      | c # cs \<Rightarrow> (isLetter c \<or> c = CHR ''_'')
                  \<and> list_all (\<lambda>d. isLetter d \<or> isDigit d \<or> d = CHR ''_'') cs
                  \<and> take 2 s \<noteq> ''__'')"

definition RegisterLegacy :: "string \<Rightarrow> string list \<Rightarrow> bool" where
  "RegisterLegacy name labelNames =
     (validMetricName name \<and> list_all validLabelName labelNames \<and> distinct labelNames)"

text \<open>
  The sum of two \<^verbatim>\<open>float64\<close> values, where the sum of two finite values is a \<^verbatim>\<open>float64\<close>
  again and so is not rounded. The examples add only such values: 0, 1, 2.5 and 3.5.
\<close>

fun addExact :: "float64 \<Rightarrow> float64 \<Rightarrow> float64" where
  "addExact (Finite x) (Finite y) = Finite (x + y)"
| "addExact (Finite x) NegZero = Finite x"
| "addExact NegZero (Finite y) = Finite y"
| "addExact NegZero NegZero = NegZero"
| "addExact NaN b = NaN"
| "addExact a NaN = NaN"
| "addExact PosInf NegInf = NaN"
| "addExact NegInf PosInf = NaN"
| "addExact PosInf b = PosInf"
| "addExact a PosInf = PosInf"
| "addExact NegInf b = NegInf"
| "addExact a NegInf = NegInf"

text \<open>
  One result for \<^verbatim>\<open>uint64(v)\<close> where the language leaves it open. The examples convert no
  such value.
\<close>

definition uint64OtherFixed :: "float64 \<Rightarrow> 64 word" where
  "uint64OtherFixed v = 2 ^ 63"

definition exampleEnv :: env where
  "exampleEnv =
     \<lparr>ParseFloat = ParseFloatTable, Register = RegisterLegacy, Quote = QuoteASCII,
      addFloat64 = addExact, uint64Other = uint64OtherFixed\<rparr>"

text \<open>
  The sample and the family of the example of the specification,
  \<^verbatim>\<open>requests_total{path="/a",code="200"}\<close>, with a value text \<open>v\<close>; the entry and the
  registry that hold this family with one child, the counter \<open>c\<close>; the counter that has
  received the whole number \<open>n\<close> and nothing else, with the entry and the registry for
  it; and the line for a value text \<open>t\<close>.
\<close>

definition sampleA :: "string \<Rightarrow> Metric" where
  "sampleA v = \<lparr>Labels = [(''path'', ''/a''), (''code'', ''200'')], TimestampMs = '''', Value = v\<rparr>"

definition familyA :: "string \<Rightarrow> MetricInfo" where
  "familyA v = \<lparr>Name = ''requests_total'', Help = '''', Type = ''counter'', Metrics = [sampleA v]\<rparr>"

definition entryOf :: "counter \<Rightarrow> CustomMetricPrometheus" where
  "entryOf c =
     \<lparr>meta = \<lparr>MetaName = ''requests_total'', MetaLabels = [''code'', ''path'']\<rparr>,
      obj = \<lparr>variableLabels = [''code'', ''path''], children = [[''200'', ''/a''] \<mapsto> c]\<rparr>\<rparr>"

definition registryOf :: "counter \<Rightarrow> registry" where
  "registryOf c = [''requests_total'' \<mapsto> entryOf c]"

definition wholeCounter :: "nat \<Rightarrow> counter" where
  "wholeCounter n = \<lparr>valInt = of_nat n, valBits = Finite 0\<rparr>"

definition entryA :: "nat \<Rightarrow> CustomMetricPrometheus" where
  "entryA n = entryOf (wholeCounter n)"

definition registryA :: "nat \<Rightarrow> registry" where
  "registryA n = registryOf (wholeCounter n)"

definition lineA :: "string \<Rightarrow> MetricLineInfo" where
  \<open>lineA t = \<lparr>LineName = ''requests_total'',
              MetricExpo = ''requests_total{code="200",path="/a"} '' @ t @ [CHR 0x0A]\<rparr>\<close>

text \<open>
  A family of two samples with different label keys, the first with a value text that is
  not a number; the entry that Create makes of it; and a sample for the family
  \<^verbatim>\<open>requests_total\<close> that has the key \<^verbatim>\<open>zone\<close> in the place of \<^verbatim>\<open>path\<close>.
\<close>

definition familyB :: MetricInfo where
  "familyB =
     \<lparr>Name = ''m'', Help = '''', Type = ''counter'',
      Metrics = [\<lparr>Labels = [(''a'', ''x'')], TimestampMs = '''', Value = ''abc''\<rparr>,
                 \<lparr>Labels = [(''b'', ''y'')], TimestampMs = '''', Value = ''1''\<rparr>]\<rparr>"

definition registryB :: registry where
  "registryB =
     [''m'' \<mapsto> \<lparr>meta = \<lparr>MetaName = ''m'', MetaLabels = [''b'']\<rparr>,
                obj = \<lparr>variableLabels = [''b''], children = [[''y''] \<mapsto> wholeCounter 1]\<rparr>\<rparr>]"

definition lineB :: MetricLineInfo where
  \<open>lineB = \<lparr>LineName = ''m'', MetricExpo = ''m{b="y"} 1'' @ [CHR 0x0A]\<rparr>\<close>

definition sampleOtherKey :: Metric where
  "sampleOtherKey =
     \<lparr>Labels = [(''zone'', ''/a''), (''code'', ''200'')], TimestampMs = '''', Value = ''1''\<rparr>"

text \<open>
  A family with the metric name \<^verbatim>\<open>a:b\<close>, which is outside the grammar of the
  specification, with the registry that Create makes of it and the line; a family whose
  name is the empty string; and a sample for the family \<^verbatim>\<open>requests_total\<close> with an empty
  label key.
\<close>

definition familyColon :: MetricInfo where
  "familyColon = \<lparr>Name = ''a:b'', Help = '''', Type = ''counter'', Metrics = [sampleA ''1'']\<rparr>"

definition registryColon :: registry where
  "registryColon =
     [''a:b'' \<mapsto> \<lparr>meta = \<lparr>MetaName = ''a:b'', MetaLabels = [''code'', ''path'']\<rparr>,
                  obj = \<lparr>variableLabels = [''code'', ''path''],
                         children = [[''200'', ''/a''] \<mapsto> wholeCounter 1]\<rparr>\<rparr>]"

definition lineColon :: MetricLineInfo where
  \<open>lineColon = \<lparr>LineName = ''a:b'',
                MetricExpo = ''a:b{code="200",path="/a"} 1'' @ [CHR 0x0A]\<rparr>\<close>

definition familyNoName :: MetricInfo where
  "familyNoName =
     \<lparr>Name = '''', Help = '''', Type = ''counter'', Metrics = [sampleA ''1'', sampleA ''abc'']\<rparr>"

definition sampleNoKey :: Metric where
  "sampleNoKey =
     \<lparr>Labels = [('''', ''/a''), (''code'', ''200'')], TimestampMs = '''', Value = ''1''\<rparr>"

section \<open>Properties\<close>

subsection \<open>The exposition line\<close>

text \<open>
  Two keys in ascending order give label texts in ascending order, unless the smaller key
  is the larger key cut before a byte that is not above \<^verbatim>\<open>=\<close>.
\<close>

lemma key_less_pair_less:
  fixes k1 k2 :: string
  assumes lt: "k1 < k2"
    and pre: "\<And>c r. k2 = k1 @ c # r \<Longrightarrow> CHR ''='' < c"
  shows "k1 @ CHR ''='' # x < k2 @ CHR ''='' # y"
proof -
  from lt have "(k1, k2) \<in> lexord {(u, v). u < v}"
    by (simp add: list_less_def)
  then consider (prefix) c r where "k2 = k1 @ c # r"
    | (differ) u a b v w where "a < b" "k1 = u @ a # v" "k2 = u @ b # w"
    unfolding lexord_def by blast
  then show ?thesis
  proof cases
    case prefix
    then have "CHR ''='' < c" by (rule pre)
    then have "(k1 @ CHR ''='' # x, k1 @ c # (r @ CHR ''='' # y)) \<in> lexord {(u, v). u < v}"
      by (intro lexord_append_left_rightI) simp
    with prefix show ?thesis by (simp add: list_less_def)
  next
    case differ
    then have "(u @ a # (v @ CHR ''='' # x), u @ b # (w @ CHR ''='' # y)) \<in> lexord {(u, v). u < v}"
      by (intro lexord_append_left_rightI) simp
    with differ show ?thesis by (simp add: list_less_def)
  qed
qed

lemma sort_pairs_perm:
  assumes "mset labels' = mset labels"
  shows "sort (map (labelPair q) labels') = sort (map (labelPair q) labels)"
proof (rule properties_for_sort)
  have "image_mset (labelPair q) (mset labels') = image_mset (labelPair q) (mset labels)"
    using assms by simp
  then show "mset (sort (map (labelPair q) labels)) = mset (map (labelPair q) labels')"
    by simp
  show "sorted (sort (map (labelPair q) labels))"
    by simp
qed

lemma createMetricLine_perm:
  assumes "mset labels' = mset labels"
  shows "createMetricLine q name labels' val = createMetricLine q name labels val"
  using sort_pairs_perm [OF assms, of q] by (simp add: createMetricLine_def)

lemma sorted_pairs_of_sorted_keys:
  assumes "sorted_wrt (<) (map fst xs)"
    and "\<And>k1 k2 c r. k1 \<in> fst ` set xs \<Longrightarrow> k2 \<in> fst ` set xs \<Longrightarrow> k2 = k1 @ c # r \<Longrightarrow> CHR ''='' < c"
  shows "sorted (map (labelPair q) xs)"
proof -
  have "sorted_wrt (\<lambda>a b. fst a < fst b) xs"
    using assms(1) by (simp add: sorted_wrt_map)
  then have "sorted_wrt (\<lambda>a b. labelPair q a \<le> labelPair q b) xs"
  proof (rule sorted_wrt_mono_rel [rotated])
    fix a b assume "a \<in> set xs" "b \<in> set xs" "fst a < fst b"
    then have "fst a @ CHR ''='' # q (snd a) < fst b @ CHR ''='' # q (snd b)"
      by (intro key_less_pair_less) (auto intro: assms(2))
    then show "labelPair q a \<le> labelPair q b"
      by (simp add: labelPair_def)
  qed
  then show ?thesis by (simp add: sorted_wrt_map)
qed

lemma sort_pairs_by_key:
  assumes d: "distinct (map fst labels)"
    and pre: "\<And>k1 k2 c r. k1 \<in> fst ` set labels \<Longrightarrow> k2 \<in> fst ` set labels \<Longrightarrow> k2 = k1 @ c # r \<Longrightarrow> CHR ''='' < c"
  shows "sort (map (labelPair q) labels) = map (labelPair q) (sort_key fst labels)"
proof (rule properties_for_sort)
  show "mset (map (labelPair q) (sort_key fst labels)) = mset (map (labelPair q) labels)"
    by simp
  have "sorted (map fst (sort_key fst labels))" by (rule sorted_sort_key)
  moreover have "distinct (map fst (sort_key fst labels))"
    using d by (simp add: distinct_map)
  ultimately have "sorted_wrt (<) (map fst (sort_key fst labels))"
    by (simp add: strict_sorted_iff)
  then show "sorted (map (labelPair q) (sort_key fst labels))"
    by (rule sorted_pairs_of_sorted_keys) (auto intro: pre)
qed

text \<open>
  C7, as amended. With an empty label set \<^verbatim>\<open>createMetricLine\<close> still writes the braces:
  the line is the name, \<^verbatim>\<open>{}\<close>, and, when the value is not empty, a blank and the value.
\<close>

theorem createMetricLine_no_labels:
  "createMetricLine q name [] val =
     (if val = [] then name @ ''{}'' @ [CHR 0x0A] else name @ ''{} '' @ val @ [CHR 0x0A])"
  by (simp add: createMetricLine_def)

text \<open>
  C7 as stated fails: the sample \<^verbatim>\<open>metric_with_no_labels 1\<close> of \<^verbatim>\<open>test/examples.sh\<close> is
  printed with an empty pair of braces, not as the name and the value alone.
\<close>

theorem createMetricLine_no_labels_counterexample:
  \<open>createMetricLine QuoteASCII ''metric_with_no_labels'' [] ''1''
     = ''metric_with_no_labels{} 1'' @ [CHR 0x0A]
   \<and> createMetricLine QuoteASCII ''metric_with_no_labels'' [] ''1''
     \<noteq> ''metric_with_no_labels 1'' @ [CHR 0x0A]\<close>
  by (simp add: createMetricLine_def)

text \<open>
  C6, as amended. For a non-empty value the line is the name, the label texts
  \<^verbatim>\<open>k="v"\<close> between braces and separated by commas, a blank and the value; the texts are
  those of the labels, each once, in ascending order of the whole text as a byte string.
  The line does not depend on the order in which the map is visited. When the labels'
  keys are distinct and no key is another key cut before a byte that is not above
  \<^verbatim>\<open>=\<close>, the texts stand in ascending order of their keys.
\<close>

theorem createMetricLine_sorted_pairs:
  \<open>(val \<noteq> [] \<longrightarrow>
      (\<exists>pairs. createMetricLine q name labels val
                  = name @ ''{'' @ Join pairs '','' @ ''} '' @ val @ [CHR 0x0A]
             \<and> sorted pairs \<and> mset pairs = mset (map (labelPair q) labels)))
   \<and> (mset labels' = mset labels \<longrightarrow>
        createMetricLine q name labels' val = createMetricLine q name labels val)
   \<and> (val \<noteq> [] \<and> distinct (map fst labels)
        \<and> (\<forall>k1 \<in> fst ` set labels. \<forall>k2 \<in> fst ` set labels.
              \<forall>c r. k2 = k1 @ c # r \<longrightarrow> CHR ''='' < c) \<longrightarrow>
        createMetricLine q name labels val
          = name @ ''{'' @ Join (map (labelPair q) (sort_key fst labels)) '','' @ ''} ''
              @ val @ [CHR 0x0A])\<close>
proof (intro conjI impI)
  assume "val \<noteq> []"
  then have "createMetricLine q name labels val
               = name @ ''{'' @ Join (sort (map (labelPair q) labels)) '','' @ ''} ''
                   @ val @ [CHR 0x0A]"
    by (simp add: createMetricLine_def)
  moreover have "sorted (sort (map (labelPair q) labels))"
    by simp
  moreover have "mset (sort (map (labelPair q) labels)) = mset (map (labelPair q) labels)"
    by simp
  ultimately show "\<exists>pairs. createMetricLine q name labels val
                     = name @ ''{'' @ Join pairs '','' @ ''} '' @ val @ [CHR 0x0A]
                   \<and> sorted pairs \<and> mset pairs = mset (map (labelPair q) labels)"
    by blast
next
  assume "mset labels' = mset labels"
  then show "createMetricLine q name labels' val = createMetricLine q name labels val"
    by (rule createMetricLine_perm)
next
  assume h: "val \<noteq> [] \<and> distinct (map fst labels)
        \<and> (\<forall>k1 \<in> fst ` set labels. \<forall>k2 \<in> fst ` set labels.
              \<forall>c r. k2 = k1 @ c # r \<longrightarrow> CHR ''='' < c)"
  then have "sort (map (labelPair q) labels) = map (labelPair q) (sort_key fst labels)"
    by (intro sort_pairs_by_key) blast+
  with h show "createMetricLine q name labels val
          = name @ ''{'' @ Join (map (labelPair q) (sort_key fst labels)) '','' @ ''} ''
              @ val @ [CHR 0x0A]"
    by (simp add: createMetricLine_def)
qed

text \<open>
  The example of the specification: the sample with the labels \<^verbatim>\<open>path\<close> and \<^verbatim>\<open>code\<close> is
  printed with \<^verbatim>\<open>code\<close> first, whichever label the map yields first.
\<close>

theorem createMetricLine_sorted_pairs_witness:
  \<open>''1'' \<noteq> ''''
   \<and> mset [(''code'', ''200''), (''path'', ''/a'')] = mset [(''path'', ''/a''), (''code'', ''200'')]
   \<and> distinct (map fst [(''path'', ''/a''), (''code'', ''200'')])
   \<and> createMetricLine QuoteASCII ''requests_total'' [(''path'', ''/a''), (''code'', ''200'')] ''1''
       = ''requests_total{code="200",path="/a"} 1'' @ [CHR 0x0A]
   \<and> createMetricLine QuoteASCII ''requests_total'' [(''code'', ''200''), (''path'', ''/a'')] ''1''
       = createMetricLine QuoteASCII ''requests_total'' [(''path'', ''/a''), (''code'', ''200'')] ''1''\<close>
  using createMetricLine_sorted_pairs
    [of "''1''" QuoteASCII "''requests_total''" "[(''path'', ''/a''), (''code'', ''200'')]"
        "[(''code'', ''200''), (''path'', ''/a'')]"]
  by (simp add: labelPair_def QuoteASCII_def quoteByte_def)

text \<open>
  C6 as stated fails: the key \<^verbatim>\<open>a\<close> is below the key \<^verbatim>\<open>a1\<close>, yet the line lists
  \<^verbatim>\<open>a1\<close> first, because the text \<^verbatim>\<open>a1="y"\<close> is below the text \<^verbatim>\<open>a="x"\<close>.
\<close>

theorem createMetricLine_key_order_counterexample:
  \<open>createMetricLine QuoteASCII ''m'' [(''a'', ''x''), (''a1'', ''y'')] ''1''
     = ''m{a1="y",a="x"} 1'' @ [CHR 0x0A]
   \<and> (''a'' :: string) < ''a1''\<close>
  by (simp add: createMetricLine_def labelPair_def QuoteASCII_def quoteByte_def)

subsection \<open>Update of a name that the map does not hold\<close>

text \<open>
  C5. When \<^verbatim>\<open>metricsMapPrometheus\<close> has no entry for the name of the family,
  \<^verbatim>\<open>updateMetric\<close> logs that the metric was not found, returns no line and leaves the map
  as it was; the handler writes nothing for the family and goes on with the next one.
\<close>

theorem updateMetric_unknown_name:
  "m (Name f) = None \<Longrightarrow>
   updateMetric E m f = (m, [MetricNotFound (Name f)], [])
   \<and> updateHandler E m (f # rest)
       = (case updateHandler E m rest of (m', lg, w) \<Rightarrow> (m', MetricNotFound (Name f) # lg, w))"
  by (simp add: updateMetric_def split: prod.splits)

theorem updateMetric_unknown_name_witness:
  "(Map.empty :: registry) ''never_created'' = None
   \<and> updateMetric exampleEnv Map.empty
        \<lparr>Name = ''never_created'', Help = '''', Type = ''counter'',
         Metrics = [\<lparr>Labels = [(''path'', ''/a'')], TimestampMs = '''', Value = ''1''\<rparr>]\<rparr>
      = (Map.empty, [MetricNotFound ''never_created''], [])
   \<and> updateHandler exampleEnv Map.empty
        [\<lparr>Name = ''never_created'', Help = '''', Type = ''counter'',
          Metrics = [\<lparr>Labels = [(''path'', ''/a'')], TimestampMs = '''', Value = ''1''\<rparr>]\<rparr>]
      = (Map.empty, [MetricNotFound ''never_created''], [])"
  using updateMetric_unknown_name
    [of Map.empty
        "\<lparr>Name = ''never_created'', Help = '''', Type = ''counter'',
          Metrics = [\<lparr>Labels = [(''path'', ''/a'')], TimestampMs = '''', Value = ''1''\<rparr>]\<rparr>"
        exampleEnv "[]"]
  by simp


subsection \<open>When \<^verbatim>\<open>GetMetricWith\<close> finds a counter\<close>

text \<open>
  For a map with distinct keys and a vector with distinct label names the library call
  succeeds exactly when the keys of the map are the label names of the vector.
\<close>

lemma those_map_Some:
  "(\<forall>x \<in> set xs. f x \<noteq> None) \<Longrightarrow> \<exists>ys. those (map f xs) = Some ys \<and> length ys = length xs"
  by (induction xs) auto

lemma those_map_None:
  "\<exists>x \<in> set xs. f x = None \<Longrightarrow> those (map f xs) = None"
  by (induction xs) (auto split: option.splits)

lemma labelValues_Some_iff:
  "(\<exists>vals. labelValues names labels = Some vals) \<longleftrightarrow> set names \<subseteq> fst ` set labels"
proof
  assume ex: "\<exists>vals. labelValues names labels = Some vals"
  show "set names \<subseteq> fst ` set labels"
  proof (rule ccontr)
    assume "\<not> set names \<subseteq> fst ` set labels"
    then obtain n where n: "n \<in> set names" "n \<notin> fst ` set labels" by blast
    then have "map_of labels n = None" by (simp add: map_of_eq_None_iff)
    with n(1) have "those (map (map_of labels) names) = None"
      by (intro those_map_None) blast
    with ex show False by (simp add: labelValues_def)
  qed
next
  assume "set names \<subseteq> fst ` set labels"
  then have "\<forall>n \<in> set names. map_of labels n \<noteq> None"
    by (auto simp: map_of_eq_None_iff)
  then show "\<exists>vals. labelValues names labels = Some vals"
    using those_map_Some [of names "map_of labels"] by (auto simp: labelValues_def)
qed

lemma same_keys_length:
  assumes "distinct (map fst labels)" "distinct names" "fst ` set labels = set names"
  shows "length labels = length names"
proof -
  have "length labels = card (set (map fst labels))"
    using assms(1) by (metis distinct_card length_map)
  also have "\<dots> = card (set names)" using assms(3) by simp
  also have "\<dots> = length names" using assms(2) by (simp add: distinct_card)
  finally show ?thesis .
qed

lemma GetMetricWith_Some_iff:
  assumes "distinct (map fst labels)" "distinct (variableLabels vec)"
  shows "(\<exists>r. GetMetricWith vec labels = Some r) \<longleftrightarrow> fst ` set labels = set (variableLabels vec)"
proof
  assume "\<exists>r. GetMetricWith vec labels = Some r"
  then have len: "length labels = length (variableLabels vec)"
    and "\<exists>vals. labelValues (variableLabels vec) labels = Some vals"
    by (auto simp: GetMetricWith_def split: if_splits option.splits)
  then have sub: "set (variableLabels vec) \<subseteq> fst ` set labels"
    by (simp add: labelValues_Some_iff)
  have "card (fst ` set labels) = length labels"
    using assms(1) by (metis distinct_card length_map set_map)
  also have "\<dots> = card (set (variableLabels vec))"
    using len assms(2) by (simp add: distinct_card)
  finally have "card (fst ` set labels) \<le> card (set (variableLabels vec))" by simp
  with sub show "fst ` set labels = set (variableLabels vec)"
    by (metis List.finite_set card_seteq finite_imageI)
next
  assume eq: "fst ` set labels = set (variableLabels vec)"
  then have "length labels = length (variableLabels vec)"
    using assms by (intro same_keys_length)
  moreover have "\<exists>vals. labelValues (variableLabels vec) labels = Some vals"
    using eq by (simp add: labelValues_Some_iff)
  ultimately show "\<exists>r. GetMetricWith vec labels = Some r"
    by (auto simp: GetMetricWith_def split: option.splits)
qed

lemma GetMetricWith_result:
  assumes "length labels = length (variableLabels vec)"
    and "labelValues (variableLabels vec) labels = Some vals"
  shows "GetMetricWith vec labels
           = Some (setChild vec vals (childCounter vec vals), vals)"
proof (cases "children vec vals")
  case None
  with assms show ?thesis by (simp add: GetMetricWith_def childCounter_def setChild_def)
next
  case (Some c)
  then have "(children vec)(vals \<mapsto> c) = children vec" by (simp add: fun_upd_idem)
  with Some assms show ?thesis by (simp add: GetMetricWith_def childCounter_def setChild_def)
qed


subsection \<open>What \<^verbatim>\<open>counter.Add\<close> does to a counter\<close>

lemma counterAdd_None_iff:
  "counterAdd E c v = None \<longleftrightarrow> lessZero v"
  by (simp add: counterAdd_def Let_def)

lemma roundToFloat64_small:
  assumes "n < 2 ^ 53"
  shows "roundToFloat64 n = n"
proof -
  have "\<not> (2 :: nat) ^ (53 + j) \<le> n" for j
  proof
    assume "(2 :: nat) ^ (53 + j) \<le> n"
    moreover have "(2 :: nat) ^ 53 \<le> 2 ^ (53 + j)"
      by (rule power_increasing) simp_all
    ultimately show False using assms by linarith
  qed
  then have "filter (\<lambda>j. (2 :: nat) ^ (53 + j) \<le> n) [0..<11] = []"
    by (simp add: filter_empty_conv)
  then show ?thesis by (simp add: roundToFloat64_def)
qed

text \<open>
  A whole number that is a \<^verbatim>\<open>float64\<close> and a \<^verbatim>\<open>uint64\<close> goes to \<^verbatim>\<open>valInt\<close>, whose sum wraps
  around.
\<close>

lemma counterAdd_whole:
  assumes "n < 2 ^ 64" and "roundToFloat64 n = n"
  shows "counterAdd E c (Finite (of_nat n)) = Some (c\<lparr>valInt := valInt c + of_nat n\<rparr>)"
proof -
  have lt: "rat_of_nat n < 2 ^ 64"
    using assms(1) by (metis of_nat_less_iff of_nat_numeral of_nat_power)
  have conv: "uint64OfFloat64 (uint64Other E) (Finite (of_nat n)) = of_nat n"
    using lt by (simp add: uint64OfFloat64_def)
  have "unat (of_nat n :: 64 word) = n"
    using assms(1) by (simp add: unat_of_nat take_bit_nat_eq_self)
  then have flt: "float64OfUint64 (of_nat n) = Finite (of_nat n)"
    using assms(2) by (simp add: float64OfUint64_def)
  show ?thesis
    by (simp add: counterAdd_def Let_def conv flt equalFloat64_def)
qed

text \<open>A value with a fraction goes to \<^verbatim>\<open>valBits\<close>, by a \<^verbatim>\<open>float64\<close> sum.\<close>

lemma counterAdd_fraction:
  assumes "0 \<le> x" and "of_int \<lfloor>x\<rfloor> \<noteq> x"
  shows "counterAdd E c (Finite x) = Some (c\<lparr>valBits := addFloat64 E (valBits c) (Finite x)\<rparr>)"
proof -
  have "rat_of_nat k \<noteq> x" for k
  proof
    assume k: "rat_of_nat k = x"
    have "rat_of_int \<lfloor>rat_of_nat k\<rfloor> = rat_of_nat k" by simp
    with k have "of_int \<lfloor>x\<rfloor> = x" by simp
    with assms(2) show False by simp
  qed
  then have "\<not> equalFloat64 (float64OfUint64 w) (Finite x)" for w
    by (simp add: equalFloat64_def float64OfUint64_def)
  with assms(1) show ?thesis
    by (simp add: counterAdd_def Let_def)
qed

subsection \<open>One round of the loops\<close>

lemma childCounter_setChild [simp]:
  "childCounter (setChild vec vals c) vals = c"
  by (simp add: childCounter_def setChild_def)

lemma setChild_setChild [simp]:
  "setChild (setChild vec vals c) vals c' = setChild vec vals c'"
  by (simp add: setChild_def)


lemma variableLabels_setChild [simp]:
  "variableLabels (setChild vec vals c) = variableLabels vec"
  by (simp add: setChild_def)

lemma GetMetricWith_fresh:
  "\<exists>vals. labelValues (getKeys labels) labels = Some vals
     \<and> GetMetricWith (NewCounterVec (getKeys labels)) labels
         = Some (\<lparr>variableLabels = getKeys labels, children = [vals \<mapsto> newCounter]\<rparr>, vals)"
proof -
  have "set (getKeys labels) \<subseteq> fst ` set labels"
    by (simp add: getKeys_def)
  then obtain vals where v: "labelValues (getKeys labels) labels = Some vals"
    using labelValues_Some_iff [of "getKeys labels" labels] by blast
  moreover have "length labels = length (getKeys labels)"
    by (simp add: getKeys_def)
  ultimately have "GetMetricWith (NewCounterVec (getKeys labels)) labels
         = Some (\<lparr>variableLabels = getKeys labels, children = [vals \<mapsto> newCounter]\<rparr>, vals)"
    by (simp add: GetMetricWith_def NewCounterVec_def)
  with v show ?thesis by blast
qed

text \<open>
  A sample for a family that the map holds, with the keys that the vector asks for:
  \<^verbatim>\<open>GetMetricWith\<close> yields the child of the label values, a new one when there is none,
  and \<^verbatim>\<open>Add\<close> either panics or changes that child.
\<close>

lemma createItem_existing:
  assumes "m name = Some metric"
    and "length (Labels item) = length (variableLabels (obj metric))"
    and "labelValues (variableLabels (obj metric)) (Labels item) = Some vals"
    and "ParseFloat E (Value item) = Some v"
  shows "createItem E name m item
           = (case counterAdd E (childCounter (obj metric) vals) v of
                None \<Rightarrow>
                  (m(name \<mapsto> metric\<lparr>obj := setChild (obj metric) vals
                                              (childCounter (obj metric) vals)\<rparr>), Panic)
              | Some c \<Rightarrow>
                  (m(name \<mapsto> metric\<lparr>obj := setChild (obj metric) vals c\<rparr>),
                   Line \<lparr>LineName = name,
                         MetricExpo = createMetricLine (Quote E) name (Labels item)
                                        (Sprintf_0f v)\<rparr>))"
  using assms
  by (simp add: createItem_def Let_def GetMetricWith_result split: option.splits)

lemma createItem_fresh:
  assumes "m name = None" and "Register E name (getKeys (Labels item))"
    and "ParseFloat E (Value item) = Some v"
  shows "\<exists>vals. labelValues (getKeys (Labels item)) (Labels item) = Some vals
           \<and> createItem E name m item
             = (case counterAdd E newCounter v of
                  None \<Rightarrow>
                    (m(name \<mapsto> \<lparr>meta = \<lparr>MetaName = name, MetaLabels = getKeys (Labels item)\<rparr>,
                                  obj = \<lparr>variableLabels = getKeys (Labels item),
                                         children = [vals \<mapsto> newCounter]\<rparr>\<rparr>), Panic)
                | Some c \<Rightarrow>
                    (m(name \<mapsto> \<lparr>meta = \<lparr>MetaName = name, MetaLabels = getKeys (Labels item)\<rparr>,
                                  obj = \<lparr>variableLabels = getKeys (Labels item),
                                         children = [vals \<mapsto> c]\<rparr>\<rparr>),
                     Line \<lparr>LineName = name,
                           MetricExpo = createMetricLine (Quote E) name (Labels item)
                                          (Sprintf_0f v)\<rparr>))"
proof -
  obtain vals where v: "labelValues (getKeys (Labels item)) (Labels item) = Some vals"
    and g: "GetMetricWith (NewCounterVec (getKeys (Labels item))) (Labels item)
         = Some (\<lparr>variableLabels = getKeys (Labels item), children = [vals \<mapsto> newCounter]\<rparr>, vals)"
    using GetMetricWith_fresh by blast
  have "createItem E name m item
             = (case counterAdd E newCounter v of
                  None \<Rightarrow>
                    (m(name \<mapsto> \<lparr>meta = \<lparr>MetaName = name, MetaLabels = getKeys (Labels item)\<rparr>,
                                  obj = \<lparr>variableLabels = getKeys (Labels item),
                                         children = [vals \<mapsto> newCounter]\<rparr>\<rparr>), Panic)
                | Some c \<Rightarrow>
                    (m(name \<mapsto> \<lparr>meta = \<lparr>MetaName = name, MetaLabels = getKeys (Labels item)\<rparr>,
                                  obj = \<lparr>variableLabels = getKeys (Labels item),
                                         children = [vals \<mapsto> c]\<rparr>\<rparr>),
                     Line \<lparr>LineName = name,
                           MetricExpo = createMetricLine (Quote E) name (Labels item)
                                          (Sprintf_0f v)\<rparr>))"
    using assms g
    by (simp add: createItem_def Let_def childCounter_def setChild_def split: option.splits)
  with v show ?thesis by blast
qed

lemma createItem_Logged_unchanged:
  assumes "createItem E name m item = (m', Logged e)"
  shows "m' = m"
proof (cases "ParseFloat E (Value item)")
  case None
  with assms show ?thesis by (simp add: createItem_def)
next
  case (Some v)
  show ?thesis
  proof (cases "m name")
    case None
    obtain vals where g: "GetMetricWith (NewCounterVec (getKeys (Labels item))) (Labels item)
         = Some (\<lparr>variableLabels = getKeys (Labels item), children = [vals \<mapsto> newCounter]\<rparr>, vals)"
      using GetMetricWith_fresh by blast
    with assms Some None show ?thesis
      by (simp add: createItem_def Let_def split: if_splits option.splits)
  next
    case (Some metric)
    with assms \<open>ParseFloat E (Value item) = Some v\<close> show ?thesis
      by (auto simp: createItem_def Let_def split: option.splits if_splits prod.splits)
  qed
qed

lemma createItem_mismatch:
  assumes "m name = Some metric" and "distinct (variableLabels (obj metric))"
    and "distinct (map fst (Labels item))"
    and "fst ` set (Labels item) \<noteq> set (variableLabels (obj metric))"
    and "ParseFloat E (Value item) = Some v"
  shows "createItem E name m item = (m, Logged ErrorGettingMetric)"
proof -
  have "GetMetricWith (obj metric) (Labels item) = None"
    using GetMetricWith_Some_iff [of "Labels item" "obj metric"] assms(2,3,4) by auto
  with assms(1,5) show ?thesis by (simp add: createItem_def Let_def)
qed

lemma updateItem_mismatch:
  assumes "distinct (variableLabels vec)"
    and "distinct (map fst (Labels item))"
    and "fst ` set (Labels item) \<noteq> set (variableLabels vec)"
  shows "updateItem E name vec item = (vec, Inl ErrorGettingMetric)"
proof -
  have "GetMetricWith vec (Labels item) = None"
    using GetMetricWith_Some_iff [of "Labels item" vec] assms by auto
  then show ?thesis by (simp add: updateItem_def)
qed

lemma updateItem_match:
  assumes "length (Labels item) = length (variableLabels vec)"
    and "labelValues (variableLabels vec) (Labels item) = Some vals"
  shows "updateItem E name vec item
           = (setChild vec vals (counterInc (childCounter vec vals)),
              Inr \<lparr>LineName = name,
                   MetricExpo = createMetricLine (Quote E) name (Labels item)
                     (Sprintf_0f (getMetricValue E (counterInc (childCounter vec vals))))\<rparr>)"
  using assms
  by (simp add: updateItem_def Let_def GetMetricWith_result)

lemma createLoop_Logged_step:
  assumes "createItem E name m item = (m', Logged e)"
  shows "createLoop E name m (item # rest)
           = (case createLoop E name m rest of (m'', lg, r) \<Rightarrow> (m'', e # lg, r))"
  using assms createItem_Logged_unchanged [OF assms] by simp

lemma createLoop_Line_step:
  assumes "createItem E name m item = (m', Line l)"
  shows "createLoop E name m (item # rest)
           = (case createLoop E name m' rest of (m'', lg, r) \<Rightarrow> (m'', lg, map_option ((#) l) r))"
  using assms by simp







subsection \<open>Printing a value with \<^verbatim>\<open>%.0f\<close>\<close>




lemma round_half_even_of_nat [simp]:
  "round_half_even (of_nat n) = int n"
  by (simp add: round_half_even_def)

lemma digitChar_code:
  assumes "d < 10"
  shows "(of_char (digitChar d) :: nat) = 48 + d"
proof -
  from assms have "d \<in> {0, 1, 2, 3, 4, 5, 6, 7, 8, 9}" by auto
  then show ?thesis by (auto simp: digitChar_def)
qed

lemma decimalValue_snoc:
  "decimalValue (s @ [c]) = 10 * decimalValue s + (of_char c - 48)"
  by (simp add: decimalValue_def)

lemma decimalValue_digits10:
  "decimalValue (digits10 n) = n"
proof (induction n rule: digits10.induct)
  case (1 n)
  show ?case
  proof (cases "n < 10")
    case True
    then have "digits10 n = [digitChar n]" by (simp add: digits10.simps)
    with True show ?thesis by (simp add: decimalValue_def digitChar_code)
  next
    case False
    then have "digits10 n = digits10 (n div 10) @ [digitChar (n mod 10)]"
      by (subst digits10.simps) simp
    moreover have "decimalValue (digits10 (n div 10)) = n div 10"
      using False by (rule "1.IH")
    ultimately show ?thesis
      by (simp add: decimalValue_snoc digitChar_code)
  qed
qed


lemma Sprintf_0f_of_nat:
  "Sprintf_0f (Finite (of_nat n)) = digits10 n"
  by (simp add: Sprintf_0f.simps)



subsection \<open>The values of the examples\<close>

text \<open>The texts that the examples print.\<close>

lemma Sprintf_0f_examples:
  "Sprintf_0f (Finite 5) = ''5''" "Sprintf_0f (Finite 3) = ''3''" "Sprintf_0f (Finite 1) = ''1''"
  "Sprintf_0f (Finite 6) = ''6''" "Sprintf_0f (Finite 8) = ''8''" "Sprintf_0f (Finite 9) = ''9''"
  "Sprintf_0f (Finite (5 / 2)) = ''2''" "Sprintf_0f (Finite (7 / 2)) = ''4''"
  "Sprintf_0f (Finite (- 1)) = ''-1''"
  by code_simp+

lemma digits10_example:
  "digits10 9 = ''9''"
  by code_simp

lemma floor_rat_example:
  "\<lfloor>5 / 2 :: rat\<rfloor> = 2"
  by code_simp

text \<open>What \<^verbatim>\<open>counter.Add\<close> does with the values of the examples, and what is read back.\<close>

lemma counterAdd_examples:
  "counterAdd E c (Finite 1) = Some (c\<lparr>valInt := valInt c + 1\<rparr>)"
  "counterAdd E c (Finite 3) = Some (c\<lparr>valInt := valInt c + 3\<rparr>)"
  "counterAdd E c (Finite 5) = Some (c\<lparr>valInt := valInt c + 5\<rparr>)"
  "counterAdd E c (Finite (5 / 2)) = Some (c\<lparr>valBits := addFloat64 E (valBits c) (Finite (5 / 2))\<rparr>)"
  "counterAdd E c (Finite (- 1)) = None"
  "counterAdd E c (Finite (- (5 / 2))) = None"
  using counterAdd_whole [of 1 E c] counterAdd_whole [of 3 E c] counterAdd_whole [of 5 E c]
    roundToFloat64_small [of 1] roundToFloat64_small [of 3] roundToFloat64_small [of 5]
    counterAdd_fraction [of "5 / 2" E c]
  by (simp_all add: floor_rat_example counterAdd_None_iff)

lemma float64OfUint64_small:
  assumes "n < 2 ^ 53"
  shows "float64OfUint64 (of_nat n) = Finite (of_nat n)"
proof -
  have "(2 :: nat) ^ 53 \<le> 2 ^ 64" by simp
  with assms have "n < 2 ^ 64" by linarith
  then have "unat (of_nat n :: 64 word) = n"
    by (simp add: unat_of_nat take_bit_nat_eq_self)
  with assms show ?thesis
    by (simp add: float64OfUint64_def roundToFloat64_small)
qed

lemma float64OfUint64_examples:
  "float64OfUint64 0 = Finite 0" "float64OfUint64 1 = Finite 1" "float64OfUint64 5 = Finite 5"
  "float64OfUint64 6 = Finite 6" "float64OfUint64 8 = Finite 8" "float64OfUint64 9 = Finite 9"
  using float64OfUint64_small [of 0] float64OfUint64_small [of 1] float64OfUint64_small [of 5]
    float64OfUint64_small [of 6] float64OfUint64_small [of 8] float64OfUint64_small [of 9]
  by simp_all

lemmas example_defs =
  createNewMetric_def updateMetric_def familyA_def sampleA_def createItem_def updateItem_def
  exampleEnv_def ParseFloatTable_def RegisterLegacy_def validMetricName_def validLabelName_def
  validateToken_def isLetter_def isDigit_def getKeys_def NewCounterVec_def GetMetricWith_def
  labelValues_def counterInc_def childCounter_def setChild_def newCounter_def getMetricValue_def
  counterGet_def createMetricLine_def labelPair_def QuoteASCII_def quoteByte_def registryOf_def
  entryOf_def registryA_def entryA_def wholeCounter_def lineA_def counterOf_def Let_def
  Sprintf_0f_examples counterAdd_examples float64OfUint64_examples

subsection \<open>Create adds, Update counts\<close>




text \<open>
  The sum in \<^verbatim>\<open>valInt\<close> wraps around: after Create with the value \<^verbatim>\<open>1e19\<close>, Create with the
  value \<^verbatim>\<open>1e19\<close> on the same labels leaves \<open>2 * 10 ^ 19 - 2 ^ 64\<close> in the counter.
\<close>

lemma upt_11:
  "[0..<11] = [0, 1, 2, 3, 4, 5, 6, 7, 8, 9, 10]"
  by (simp add: upt_rec)

lemma roundToFloat64_examples:
  "roundToFloat64 10000000000000000000 = 10000000000000000000"
  "roundToFloat64 1553255926290448384 = 1553255926290448384"
  "roundToFloat64 9007199254740993 = 9007199254740992"
  "roundToFloat64 9007199254740995 = 9007199254740996"
  "roundToFloat64 18446744073709551615 = 18446744073709551616"
  by (simp_all add: roundToFloat64_def upt_11 Let_def)

lemma wrap_examples:
  "(20000000000000000000 :: 64 word) = 1553255926290448384"
  "Sprintf_0f (Finite 10000000000000000000) = ''10000000000000000000''"
proof -
  show "(20000000000000000000 :: 64 word) = 1553255926290448384"
    by simp
  have "digits10 10000000000000000000 = ''10000000000000000000''"
    by (simp add: digits10.simps digitChar_def)
  then show "Sprintf_0f (Finite 10000000000000000000) = ''10000000000000000000''"
    using Sprintf_0f_of_nat [of 10000000000000000000] by simp
qed

lemma createNewMetric_wraps_example:
  "createNewMetric exampleEnv (registryOf \<lparr>valInt = 10000000000000000000, valBits = Finite 0\<rparr>)
     (familyA ''1e19'')
     = (registryOf \<lparr>valInt = 1553255926290448384, valBits = Finite 0\<rparr>, [],
        Some [lineA ''10000000000000000000''])
   \<and> counterGet exampleEnv \<lparr>valInt = 1553255926290448384, valBits = Finite 0\<rparr>
       = Finite 1553255926290448384"
proof -
  have add: "counterAdd E c (Finite 10000000000000000000)
               = Some (c\<lparr>valInt := valInt c + 10000000000000000000\<rparr>)" for E c
    using counterAdd_whole [of 10000000000000000000 E c]
    by (simp add: roundToFloat64_examples)
  have get: "float64OfUint64 1553255926290448384 = Finite 1553255926290448384"
    by (simp add: float64OfUint64_def roundToFloat64_examples)
  show ?thesis
    by (simp add: example_defs add get wrap_examples)
qed




text \<open>
  C4, as amended. Let the keys of a sample of an Update request be the label names of
  the vector of the family. Then the round of \<^verbatim>\<open>updateMetric\<close> for the sample adds one to
  the part \<^verbatim>\<open>valInt\<close> of the counter of the sample's label values (a \<^verbatim>\<open>uint64\<close>, whose sum
  wraps around), whatever the value text of the sample is, and returns the line with the
  value that is read back from the counter, printed with \<^verbatim>\<open>%.0f\<close>. The value read back is
  the \<^verbatim>\<open>float64\<close> sum of zero and the \<^verbatim>\<open>float64\<close> sum of \<^verbatim>\<open>valBits\<close> and \<^verbatim>\<open>float64(valInt)\<close>.
  When \<^verbatim>\<open>valBits\<close> is zero and the new \<^verbatim>\<open>valInt\<close> is a number \<open>n\<close> below \<open>2 ^ 53\<close>, and the
  \<^verbatim>\<open>float64\<close> sum of zero and \<open>n\<close> is \<open>n\<close>, the line shows \<open>n\<close> in decimal digits.
\<close>

theorem updateMetric_adds_one:
  assumes "distinct (variableLabels vec)" and "wfItem item"
    and "fst ` set (Labels item) = set (variableLabels vec)"
  shows "\<exists>vals c. labelValues (variableLabels vec) (Labels item) = Some vals
         \<and> c = childCounter vec vals
         \<and> updateItem E name vec item
           = (setChild vec vals (c\<lparr>valInt := valInt c + 1\<rparr>),
              Inr \<lparr>LineName = name,
                   MetricExpo = createMetricLine (Quote E) name (Labels item)
                     (Sprintf_0f (addFloat64 E (Finite 0)
                        (addFloat64 E (valBits c) (float64OfUint64 (valInt c + 1)))))\<rparr>)
         \<and> updateItem E name vec (item\<lparr>Value := x\<rparr>) = updateItem E name vec item
         \<and> (m name = Some metric \<and> obj metric = vec \<longrightarrow>
              updateMetric E m \<lparr>Name = name, Help = h, Type = t, Metrics = [item]\<rparr>
                = (m(name \<mapsto> metric\<lparr>obj := setChild vec vals (c\<lparr>valInt := valInt c + 1\<rparr>)\<rparr>),
                   [],
                   [\<lparr>LineName = name,
                     MetricExpo = createMetricLine (Quote E) name (Labels item)
                       (Sprintf_0f (addFloat64 E (Finite 0)
                          (addFloat64 E (valBits c) (float64OfUint64 (valInt c + 1)))))\<rparr>]))
         \<and> (valBits c = Finite 0 \<and> valInt c + 1 = of_nat n \<and> n < 2 ^ 53
              \<and> addFloat64 E (Finite 0) (Finite (of_nat n)) = Finite (of_nat n) \<longrightarrow>
              Sprintf_0f (addFloat64 E (Finite 0)
                 (addFloat64 E (valBits c) (float64OfUint64 (valInt c + 1)))) = digits10 n
              \<and> decimalValue (digits10 n) = n)"
proof -
  have len: "length (Labels item) = length (variableLabels vec)"
    using assms by (intro same_keys_length) (simp_all add: wfItem_def)
  obtain vals where vals: "labelValues (variableLabels vec) (Labels item) = Some vals"
    using labelValues_Some_iff [of "variableLabels vec" "Labels item"] assms(3) by auto
  define c where "c = childCounter vec vals"
  let ?text = "Sprintf_0f (addFloat64 E (Finite 0)
                  (addFloat64 E (valBits c) (float64OfUint64 (valInt c + 1))))"
  have step: "updateItem E name vec item
           = (setChild vec vals (c\<lparr>valInt := valInt c + 1\<rparr>),
              Inr \<lparr>LineName = name,
                   MetricExpo = createMetricLine (Quote E) name (Labels item) ?text\<rparr>)"
    using updateItem_match [OF len vals, of E name]
    by (simp add: c_def counterInc_def getMetricValue_def counterGet_def)
  have same: "updateItem E name vec (item\<lparr>Value := x\<rparr>) = updateItem E name vec item"
    by (simp add: updateItem_def split: option.splits)
  have family: "updateMetric E m \<lparr>Name = name, Help = h, Type = t, Metrics = [item]\<rparr>
                = (m(name \<mapsto> metric\<lparr>obj := setChild vec vals (c\<lparr>valInt := valInt c + 1\<rparr>)\<rparr>),
                   [],
                   [\<lparr>LineName = name,
                     MetricExpo = createMetricLine (Quote E) name (Labels item) ?text\<rparr>])"
    if "m name = Some metric \<and> obj metric = vec"
    using that step by (simp add: updateMetric_def)
  have whole: "?text = digits10 n \<and> decimalValue (digits10 n) = n"
    if "valBits c = Finite 0 \<and> valInt c + 1 = of_nat n \<and> n < 2 ^ 53
        \<and> addFloat64 E (Finite 0) (Finite (of_nat n)) = Finite (of_nat n)"
    using that
    by (simp add: float64OfUint64_small Sprintf_0f_of_nat decimalValue_digits10)
  from vals step same family whole c_def show ?thesis
    by blast
qed

text \<open>
  Update after the two Creates of the example above: the counter goes from 8 to 9 and
  the line says 9, although the value text of the sample is not a number.
\<close>

theorem updateMetric_adds_one_witness:
  "distinct (variableLabels (obj (entryA 8))) \<and> wfItem (sampleA ''abc'')
   \<and> fst ` set (Labels (sampleA ''abc'')) = set (variableLabels (obj (entryA 8)))
   \<and> labelValues (variableLabels (obj (entryA 8))) (Labels (sampleA ''abc'')) = Some [''200'', ''/a'']
   \<and> registryA 8 ''requests_total'' = Some (entryA 8)
   \<and> childCounter (obj (entryA 8)) [''200'', ''/a''] = wholeCounter 8
   \<and> valInt (wholeCounter 8) + 1 = of_nat 9 \<and> (9 :: nat) < 2 ^ 53
   \<and> addFloat64 exampleEnv (Finite 0) (Finite (of_nat 9)) = Finite (of_nat 9)
   \<and> updateMetric exampleEnv (registryA 8) (familyA ''abc'') = (registryA 9, [], [lineA ''9''])
   \<and> counterOf (registryA 9) ''requests_total'' [''200'', ''/a''] = wholeCounter 9"
  using updateMetric_adds_one
    [of "obj (entryA 8)" "sampleA ''abc''" exampleEnv "''requests_total''"
        "''abc''" "registryA 8" "entryA 8" "''''" "''counter''" 9]
  by (auto simp: example_defs wfItem_def digits10_example)

text \<open>
  C4 as stated fails: after Create with the value \<^verbatim>\<open>2.5\<close> the counter holds 5/2; Update
  makes it 7/2, and the line that Update returns says 4.
\<close>

theorem updateMetric_total_counterexample:
  "createNewMetric exampleEnv Map.empty (familyA ''2.5'')
     = (registryOf \<lparr>valInt = 0, valBits = Finite (5 / 2)\<rparr>, [], Some [lineA ''2''])
   \<and> updateMetric exampleEnv (registryOf \<lparr>valInt = 0, valBits = Finite (5 / 2)\<rparr>) (familyA ''1'')
     = (registryOf \<lparr>valInt = 1, valBits = Finite (5 / 2)\<rparr>, [], [lineA ''4''])
   \<and> getMetricValue exampleEnv
        (counterOf (registryOf \<lparr>valInt = 1, valBits = Finite (5 / 2)\<rparr>)
           ''requests_total'' [''200'', ''/a''])
       = Finite (7 / 2)
   \<and> rat_of_nat (decimalValue ''4'') \<noteq> 7 / 2"
  by (simp add: example_defs decimalValue_def)

subsection \<open>The registry stays well formed\<close>

lemma GetMetricWith_labels:
  "GetMetricWith vec labels = Some (vec', vals) \<Longrightarrow> variableLabels vec' = variableLabels vec"
  by (auto simp: GetMetricWith_def split: if_splits option.splits)

lemma distinct_getKeys:
  "distinct (map fst labels) \<Longrightarrow> distinct (getKeys labels)"
  by (simp add: getKeys_def)

lemma set_getKeys [simp]:
  "set (getKeys labels) = fst ` set labels"
  by (simp add: getKeys_def)

text \<open>
  A round of Create leaves every entry of the map with its label names and its meta
  data; an entry that it adds has the sorted keys of the sample as label names.
\<close>

lemma createItem_entry:
  assumes "createItem E name m item = (m', out)"
  shows "(\<forall>n. n \<noteq> name \<longrightarrow> m' n = m n)
         \<and> (\<forall>metric. m name = Some metric \<longrightarrow>
              (\<exists>metric'. m' name = Some metric' \<and> meta metric' = meta metric
                 \<and> variableLabels (obj metric') = variableLabels (obj metric)))
         \<and> (m name = None \<longrightarrow> m' name = None
              \<or> (\<exists>metric'. m' name = Some metric' \<and> Register E name (getKeys (Labels item))
                   \<and> meta metric' = \<lparr>MetaName = name, MetaLabels = getKeys (Labels item)\<rparr>
                   \<and> variableLabels (obj metric') = getKeys (Labels item)))"
proof (cases "ParseFloat E (Value item)")
  case None
  with assms show ?thesis by (auto simp: createItem_def)
next
  case (Some v)
  show ?thesis
  proof (cases "m name")
    case None
    show ?thesis
    proof (cases "Register E name (getKeys (Labels item))")
      case False
      with assms Some None show ?thesis by (auto simp: createItem_def Let_def)
    next
      case True
      obtain vals where g: "GetMetricWith (NewCounterVec (getKeys (Labels item))) (Labels item)
         = Some (\<lparr>variableLabels = getKeys (Labels item), children = [vals \<mapsto> newCounter]\<rparr>, vals)"
        using GetMetricWith_fresh by blast
      with assms Some None True show ?thesis
        by (auto simp: createItem_def Let_def split: if_splits option.splits)
    qed
  next
    case metric: (Some metric)
    show ?thesis
    proof (cases "GetMetricWith (obj metric) (Labels item)")
      case None
      with assms Some metric show ?thesis by (auto simp: createItem_def Let_def)
    next
      case get: (Some r)
      obtain vec vals where r: "r = (vec, vals)" by (cases r)
      with get have "variableLabels vec = variableLabels (obj metric)"
        by (simp add: GetMetricWith_labels)
      with assms Some metric get r show ?thesis
        by (auto simp: createItem_def Let_def split: if_splits option.splits)
    qed
  qed
qed

lemma createItem_wf:
  assumes "wfRegistry m" and "wfItem item" and "createItem E name m item = (m', out)"
  shows "wfRegistry m'"
  unfolding wfRegistry_def
proof (intro allI impI)
  fix n metric'
  assume m': "m' n = Some metric'"
  note e = createItem_entry [OF assms(3)]
  show "wfEntry metric'"
  proof (cases "n = name")
    case False
    with e m' have "m n = Some metric'" by simp
    with assms(1) show ?thesis by (simp add: wfRegistry_def)
  next
    case True
    show ?thesis
    proof (cases "m name")
      case None
      with e m' True have "meta metric' = \<lparr>MetaName = name, MetaLabels = getKeys (Labels item)\<rparr>"
        and "variableLabels (obj metric') = getKeys (Labels item)"
        by auto
      with assms(2) show ?thesis
        by (simp add: wfEntry_def wfItem_def distinct_getKeys)
    next
      case (Some metric)
      with e m' True have "meta metric' = meta metric"
        and "variableLabels (obj metric') = variableLabels (obj metric)"
        by auto
      moreover from Some assms(1) have "wfEntry metric" by (simp add: wfRegistry_def)
      ultimately show ?thesis by (simp add: wfEntry_def)
    qed
  qed
qed

lemma createLoop_wf:
  "wfRegistry m \<Longrightarrow> list_all wfItem items \<Longrightarrow> createLoop E name m items = (m', lg, r) \<Longrightarrow>
   wfRegistry m'"
proof (induction items arbitrary: m m' lg r)
  case Nil
  then show ?case by simp
next
  case (Cons x xs)
  obtain m1 out where x: "createItem E name m x = (m1, out)" by (cases "createItem E name m x")
  with Cons.prems have wf1: "wfRegistry m1" by (auto intro: createItem_wf)
  obtain m2 lg2 r2 where l: "createLoop E name m1 xs = (m2, lg2, r2)"
    by (cases "createLoop E name m1 xs")
  have "wfRegistry m2"
    using Cons.IH [of m1 m2 lg2 r2] wf1 Cons.prems(2) l by simp
  with x l wf1 Cons.prems(3) show ?case by (cases out) auto
qed

lemma createNewMetric_wf:
  "wfRegistry m \<Longrightarrow> list_all wfItem (Metrics f) \<Longrightarrow> createNewMetric E m f = (m', lg, r) \<Longrightarrow>
   wfRegistry m'"
  by (auto simp: createNewMetric_def intro: createLoop_wf)

lemma updateItem_labels:
  "updateItem E name vec item = (vec', out) \<Longrightarrow> variableLabels vec' = variableLabels vec"
  by (auto simp: updateItem_def Let_def GetMetricWith_labels
      split: option.splits prod.splits)

lemma updateLoop_labels:
  "updateLoop E name vec items = (vec', lg, r) \<Longrightarrow> variableLabels vec' = variableLabels vec"
proof (induction items arbitrary: vec vec' lg r)
  case Nil
  then show ?case by simp
next
  case (Cons x xs)
  obtain vec1 out where x: "updateItem E name vec x = (vec1, out)"
    by (cases "updateItem E name vec x")
  obtain vec2 lg2 r2 where l: "updateLoop E name vec1 xs = (vec2, lg2, r2)"
    by (cases "updateLoop E name vec1 xs")
  from x have "variableLabels vec1 = variableLabels vec" by (rule updateItem_labels)
  moreover have "variableLabels vec2 = variableLabels vec1"
    using Cons.IH [of vec1 vec2 lg2 r2] l by simp
  moreover from x l Cons.prems have "vec' = vec2" by (cases out) auto
  ultimately show ?case by simp
qed

lemma updateMetric_wf:
  assumes "wfRegistry m" and "updateMetric E m f = (m', lg, r)"
  shows "wfRegistry m'"
proof (cases "m (Name f)")
  case None
  with assms show ?thesis by (simp add: updateMetric_def)
next
  case (Some metric)
  obtain vec lg2 r2 where l: "updateLoop E (Name f) (obj metric) (Metrics f) = (vec, lg2, r2)"
    by (cases "updateLoop E (Name f) (obj metric) (Metrics f)")
  then have "variableLabels vec = variableLabels (obj metric)" by (rule updateLoop_labels)
  moreover from Some assms(1) have "wfEntry metric" by (simp add: wfRegistry_def)
  ultimately have "wfEntry (metric\<lparr>obj := vec\<rparr>)" by (simp add: wfEntry_def)
  moreover from Some l assms(2) have "m' = m(Name f \<mapsto> metric\<lparr>obj := vec\<rparr>)"
    by (simp add: updateMetric_def)
  ultimately show ?thesis using assms(1) by (simp add: wfRegistry_def)
qed

lemma wfRegistry_empty:
  "wfRegistry Map.empty"
  by (simp add: wfRegistry_def)

text \<open>
  Hence every registry that the two handlers build from the empty one, out of requests
  whose label maps have distinct keys, is well formed.
\<close>

lemma createHandler_wf:
  "wfRegistry m \<Longrightarrow> list_all (\<lambda>f. list_all wfItem (Metrics f)) fs \<Longrightarrow>
   createHandler E m fs = (m', lg, w, fin) \<Longrightarrow> wfRegistry m'"
proof (induction fs arbitrary: m m' lg w fin)
  case Nil
  then show ?case by simp
next
  case (Cons f fs)
  obtain m1 lg1 r1 where c: "createNewMetric E m f = (m1, lg1, r1)"
    by (cases "createNewMetric E m f")
  with Cons.prems have wf1: "wfRegistry m1"
    using createNewMetric_wf [of m f E m1 lg1 r1] by simp
  show ?case
  proof (cases r1)
    case None
    with c Cons.prems(3) wf1 show ?thesis by simp
  next
    case (Some ls)
    obtain m2 lg2 w2 fin2 where h: "createHandler E m1 fs = (m2, lg2, w2, fin2)"
      by (cases "createHandler E m1 fs")
    with wf1 Cons.prems(2) have "wfRegistry m2"
      using Cons.IH [of m1 m2 lg2 w2 fin2] by simp
    with c Some h Cons.prems(3) show ?thesis by simp
  qed
qed

lemma updateHandler_wf:
  "wfRegistry m \<Longrightarrow> updateHandler E m fs = (m', lg, w) \<Longrightarrow> wfRegistry m'"
proof (induction fs arbitrary: m m' lg w)
  case Nil
  then show ?case by simp
next
  case (Cons f fs)
  obtain m1 lg1 r1 where u: "updateMetric E m f = (m1, lg1, r1)"
    by (cases "updateMetric E m f")
  with Cons.prems(1) have wf1: "wfRegistry m1" by (rule updateMetric_wf)
  obtain m2 lg2 w2 where h: "updateHandler E m1 fs = (m2, lg2, w2)"
    by (cases "updateHandler E m1 fs")
  with wf1 have "wfRegistry m2" using Cons.IH [of m1 m2 lg2 w2] by simp
  with u h Cons.prems(2) show ?case by simp
qed


subsection \<open>The label set of a family\<close>

lemma createItem_registers:
  assumes "m name = None" and "ParseFloat E (Value item) = Some v"
    and "Register E name (getKeys (Labels item))"
  shows "\<exists>metric'. fst (createItem E name m item) name = Some metric'
           \<and> MetaLabels (meta metric') = getKeys (Labels item)
           \<and> variableLabels (obj metric') = getKeys (Labels item)"
proof -
  obtain vals where "GetMetricWith (NewCounterVec (getKeys (Labels item))) (Labels item)
         = Some (\<lparr>variableLabels = getKeys (Labels item), children = [vals \<mapsto> newCounter]\<rparr>, vals)"
    using GetMetricWith_fresh by blast
  with assms show ?thesis
    by (simp add: createItem_def Let_def split: option.splits)
qed

text \<open>
  C1, as amended. While the map has no entry for the name, a sample whose value does not
  parse, or whose registration is refused, is logged and changes nothing; the first
  sample whose value parses and whose registration succeeds makes the entry, and the
  label names of the entry are the sorted keys of that sample. An entry keeps its label
  names and meta data in every later round of Create and Update. When the entry exists
  and the keys of a sample are not its label names, Create logs the error of
  \<^verbatim>\<open>GetMetricWith\<close> (or the error of the value, when the value does not parse) and Update
  logs the error of \<^verbatim>\<open>GetMetricWith\<close>; the map and the vector stay as they were and the
  loop goes on with the next sample.
\<close>

theorem createNewMetric_label_set:
  "(m name = None
      \<and> (ParseFloat E (Value item) = None \<or> \<not> Register E name (getKeys (Labels item))) \<longrightarrow>
      createItem E name m item
        = (m, Logged (if ParseFloat E (Value item) = None then ErrorParsingMetricValue
                      else ErrorRegisteringMetric)))
   \<and> (m name = None \<and> ParseFloat E (Value item) = Some v
        \<and> Register E name (getKeys (Labels item)) \<longrightarrow>
        (\<exists>metric'. fst (createItem E name m item) name = Some metric'
           \<and> MetaLabels (meta metric') = getKeys (Labels item)
           \<and> variableLabels (obj metric') = getKeys (Labels item)))
   \<and> (m name = Some metric \<longrightarrow>
        (\<exists>metric'. fst (createItem E name m item) name = Some metric'
           \<and> meta metric' = meta metric
           \<and> variableLabels (obj metric') = variableLabels (obj metric))
        \<and> variableLabels (fst (updateItem E name (obj metric) item))
            = variableLabels (obj metric))
   \<and> (m name = Some metric \<and> wfEntry metric \<and> wfItem item
        \<and> fst ` set (Labels item) \<noteq> set (variableLabels (obj metric)) \<longrightarrow>
        createItem E name m item
          = (m, Logged (if ParseFloat E (Value item) = None then ErrorParsingMetricValue
                        else ErrorGettingMetric))
        \<and> createLoop E name m (item # rest)
          = (case createLoop E name m rest of
               (m', lg, r) \<Rightarrow>
                 (m', (if ParseFloat E (Value item) = None then ErrorParsingMetricValue
                       else ErrorGettingMetric) # lg, r))
        \<and> updateItem E name (obj metric) item = (obj metric, Inl ErrorGettingMetric)
        \<and> updateLoop E name (obj metric) (item # rest)
          = (case updateLoop E name (obj metric) rest of
               (vec, lg, r) \<Rightarrow> (vec, ErrorGettingMetric # lg, r)))"
proof (intro conjI impI)
  assume "m name = None
      \<and> (ParseFloat E (Value item) = None \<or> \<not> Register E name (getKeys (Labels item)))"
  then show "createItem E name m item
        = (m, Logged (if ParseFloat E (Value item) = None then ErrorParsingMetricValue
                      else ErrorRegisteringMetric))"
    by (auto simp: createItem_def Let_def)
next
  assume "m name = None \<and> ParseFloat E (Value item) = Some v
        \<and> Register E name (getKeys (Labels item))"
  then show "\<exists>metric'. fst (createItem E name m item) name = Some metric'
           \<and> MetaLabels (meta metric') = getKeys (Labels item)
           \<and> variableLabels (obj metric') = getKeys (Labels item)"
    by (intro createItem_registers) simp_all
next
  assume metric: "m name = Some metric"
  obtain m' out where step: "createItem E name m item = (m', out)"
    by (cases "createItem E name m item")
  from createItem_entry [OF step] metric
  show "\<exists>metric'. fst (createItem E name m item) name = Some metric'
           \<and> meta metric' = meta metric
           \<and> variableLabels (obj metric') = variableLabels (obj metric)"
    by (simp add: step)
next
  obtain vec' out where "updateItem E name (obj metric) item = (vec', out)"
    by (cases "updateItem E name (obj metric) item")
  then show "variableLabels (fst (updateItem E name (obj metric) item))
            = variableLabels (obj metric)"
    by (simp add: updateItem_labels)
next
  assume h: "m name = Some metric \<and> wfEntry metric \<and> wfItem item
        \<and> fst ` set (Labels item) \<noteq> set (variableLabels (obj metric))"
  then have get: "GetMetricWith (obj metric) (Labels item) = None"
    using GetMetricWith_Some_iff [of "Labels item" "obj metric"]
    by (auto simp: wfEntry_def wfItem_def)
  with h show c: "createItem E name m item
          = (m, Logged (if ParseFloat E (Value item) = None then ErrorParsingMetricValue
                        else ErrorGettingMetric))"
    by (auto simp: createItem_def Let_def)
  from c show "createLoop E name m (item # rest)
          = (case createLoop E name m rest of
               (m', lg, r) \<Rightarrow>
                 (m', (if ParseFloat E (Value item) = None then ErrorParsingMetricValue
                       else ErrorGettingMetric) # lg, r))"
    by simp
  from get show u: "updateItem E name (obj metric) item = (obj metric, Inl ErrorGettingMetric)"
    by (simp add: updateItem_def)
  from u show "updateLoop E name (obj metric) (item # rest)
          = (case updateLoop E name (obj metric) rest of
               (vec, lg, r) \<Rightarrow> (vec, ErrorGettingMetric # lg, r))"
    by simp
qed

lemma sampleOtherKey_keys:
  "fst ` set (Labels sampleOtherKey) \<noteq> set (variableLabels (obj (entryA c)))"
proof
  assume "fst ` set (Labels sampleOtherKey) = set (variableLabels (obj (entryA c)))"
  then have "''zone'' \<in> set (variableLabels (obj (entryA c)))"
    by (auto simp: sampleOtherKey_def)
  then show False by (simp add: entryA_def entryOf_def)
qed

text \<open>
  The family \<open>familyB\<close> on an empty registry: the first sample is logged and the entry is
  made from the keys of the second. Then the family \<^verbatim>\<open>requests_total\<close> with the label
  names \<^verbatim>\<open>code\<close> and \<^verbatim>\<open>path\<close>: a sample with the keys \<^verbatim>\<open>code\<close> and \<^verbatim>\<open>zone\<close> is refused by
  Create and by Update, and the registry is as before.
\<close>

theorem createNewMetric_label_set_witness:
  "(Map.empty :: registry) ''m'' = None
   \<and> ParseFloat exampleEnv (Value (Metrics familyB ! 0)) = None
   \<and> createItem exampleEnv ''m'' Map.empty (Metrics familyB ! 0)
       = (Map.empty, Logged ErrorParsingMetricValue)
   \<and> ParseFloat exampleEnv (Value (Metrics familyB ! 1)) = Some (Finite 1)
   \<and> Register exampleEnv ''m'' (getKeys (Labels (Metrics familyB ! 1)))
   \<and> fst (createItem exampleEnv ''m'' Map.empty (Metrics familyB ! 1)) = registryB
   \<and> registryA 5 ''requests_total'' = Some (entryA 5)
   \<and> wfEntry (entryA 5) \<and> wfItem sampleOtherKey
   \<and> fst ` set (Labels sampleOtherKey) \<noteq> set (variableLabels (obj (entryA 5)))
   \<and> createNewMetric exampleEnv (registryA 5)
        \<lparr>Name = ''requests_total'', Help = '''', Type = ''counter'', Metrics = [sampleOtherKey]\<rparr>
       = (registryA 5, [ErrorGettingMetric], Some [])
   \<and> updateMetric exampleEnv (registryA 5)
        \<lparr>Name = ''requests_total'', Help = '''', Type = ''counter'', Metrics = [sampleOtherKey]\<rparr>
       = (registryA 5, [ErrorGettingMetric], [])"
  using createNewMetric_label_set
      [of Map.empty "''m''" exampleEnv "Metrics familyB ! 0" "Finite 1" "entryA 5" "[]"]
    createNewMetric_label_set
      [of Map.empty "''m''" exampleEnv "Metrics familyB ! 1" "Finite 1" "entryA 5" "[]"]
    createNewMetric_label_set
      [of "registryA 5" "''requests_total''" exampleEnv sampleOtherKey "Finite 1" "entryA 5" "[]"]
  using sampleOtherKey_keys [of 5]
  by (simp add: example_defs familyB_def registryB_def sampleOtherKey_def wfEntry_def wfItem_def)

text \<open>
  C1 as stated fails: in \<open>familyB\<close> the first sample has the key \<^verbatim>\<open>a\<close> and the second the
  key \<^verbatim>\<open>b\<close>. The value of the first does not parse, so the family is registered with the
  label set of the second sample, which is accepted.
\<close>

theorem createNewMetric_first_sample_counterexample:
  "map (\<lambda>item. map fst (Labels item)) (Metrics familyB) = [[''a''], [''b'']]
   \<and> createNewMetric exampleEnv Map.empty familyB
       = (registryB, [ErrorParsingMetricValue], Some [lineB])
   \<and> MetaLabels (meta (the (registryB ''m''))) = [''b'']"
  by (simp add: example_defs familyB_def registryB_def lineB_def)


subsection \<open>What the response tells\<close>













text \<open>
  A round of Create that returns a line has added the value to the counter of the labels
  of the sample, and has left every other counter as it was.
\<close>

lemma counterOf_other:
  assumes "(name', vals') \<noteq> (name, vals)" and "m name = Some metric"
  shows "counterOf (m(name \<mapsto> metric\<lparr>obj := setChild (obj metric) vals c\<rparr>)) name' vals'
           = counterOf m name' vals'"
  using assms by (auto simp: counterOf_def childCounter_def setChild_def)

lemma createItem_Line:
  assumes "createItem E name m item = (m', Line l)"
  shows "\<exists>v vals metric' c.
           ParseFloat E (Value item) = Some v
           \<and> m' name = Some metric'
           \<and> labelValues (variableLabels (obj metric')) (Labels item) = Some vals
           \<and> counterAdd E (counterOf m name vals) v = Some c
           \<and> children (obj metric') vals = Some c
           \<and> (\<forall>name' vals'. (name', vals') \<noteq> (name, vals) \<longrightarrow>
                 counterOf m' name' vals' = counterOf m name' vals')
           \<and> l = \<lparr>LineName = name,
                   MetricExpo = createMetricLine (Quote E) name (Labels item) (Sprintf_0f v)\<rparr>"
proof (cases "ParseFloat E (Value item)")
  case None
  with assms show ?thesis by (simp add: createItem_def)
next
  case (Some v)
  show ?thesis
  proof (cases "m name")
    case None
    have reg: "Register E name (getKeys (Labels item))"
    proof (rule ccontr)
      assume "\<not> Register E name (getKeys (Labels item))"
      with assms Some None show False by (simp add: createItem_def Let_def)
    qed
    obtain vals where vals: "labelValues (getKeys (Labels item)) (Labels item) = Some vals"
      and step: "createItem E name m item
             = (case counterAdd E newCounter v of
                  None \<Rightarrow>
                    (m(name \<mapsto> \<lparr>meta = \<lparr>MetaName = name, MetaLabels = getKeys (Labels item)\<rparr>,
                                  obj = \<lparr>variableLabels = getKeys (Labels item),
                                         children = [vals \<mapsto> newCounter]\<rparr>\<rparr>), Panic)
                | Some c \<Rightarrow>
                    (m(name \<mapsto> \<lparr>meta = \<lparr>MetaName = name, MetaLabels = getKeys (Labels item)\<rparr>,
                                  obj = \<lparr>variableLabels = getKeys (Labels item),
                                         children = [vals \<mapsto> c]\<rparr>\<rparr>),
                     Line \<lparr>LineName = name,
                           MetricExpo = createMetricLine (Quote E) name (Labels item)
                                          (Sprintf_0f v)\<rparr>))"
      using createItem_fresh [of m name E item v] None reg Some by blast
    from step assms obtain c where add: "counterAdd E newCounter v = Some c"
      by (cases "counterAdd E newCounter v") simp_all
    let ?metric = "\<lparr>meta = \<lparr>MetaName = name, MetaLabels = getKeys (Labels item)\<rparr>,
                    obj = \<lparr>variableLabels = getKeys (Labels item), children = [vals \<mapsto> c]\<rparr>\<rparr>"
    from step add assms have m': "m' = m(name \<mapsto> ?metric)"
      and l: "l = \<lparr>LineName = name,
                   MetricExpo = createMetricLine (Quote E) name (Labels item) (Sprintf_0f v)\<rparr>"
      by simp_all
    from None have zero: "counterOf m name vals' = newCounter" for vals'
      by (simp add: counterOf_def)
    have others: "counterOf m' name' vals' = counterOf m name' vals'"
      if "(name', vals') \<noteq> (name, vals)" for name' vals'
      using that None by (auto simp: m' counterOf_def childCounter_def)
    have "m' name = Some ?metric" by (simp add: m')
    moreover have "labelValues (variableLabels (obj ?metric)) (Labels item) = Some vals"
      using vals by simp
    moreover have "counterAdd E (counterOf m name vals) v = Some c"
      using add by (simp add: zero)
    moreover have "children (obj ?metric) vals = Some c" by simp
    ultimately show ?thesis using Some l others by blast
  next
    case metric: (Some metric)
    have "GetMetricWith (obj metric) (Labels item) \<noteq> None"
    proof
      assume "GetMetricWith (obj metric) (Labels item) = None"
      with assms Some metric show False by (simp add: createItem_def Let_def)
    qed
    then obtain vals where len: "length (Labels item) = length (variableLabels (obj metric))"
      and vals: "labelValues (variableLabels (obj metric)) (Labels item) = Some vals"
      by (auto simp: GetMetricWith_def split: if_splits option.splits)
    have cof: "counterOf m name vals = childCounter (obj metric) vals"
      using metric by (simp add: counterOf_def)
    have step: "createItem E name m item
           = (case counterAdd E (childCounter (obj metric) vals) v of
                None \<Rightarrow>
                  (m(name \<mapsto> metric\<lparr>obj := setChild (obj metric) vals
                                              (childCounter (obj metric) vals)\<rparr>), Panic)
              | Some c \<Rightarrow>
                  (m(name \<mapsto> metric\<lparr>obj := setChild (obj metric) vals c\<rparr>),
                   Line \<lparr>LineName = name,
                         MetricExpo = createMetricLine (Quote E) name (Labels item)
                                        (Sprintf_0f v)\<rparr>))"
      using createItem_existing [of m name metric item vals E v] metric len vals Some by simp
    from step assms obtain c where add: "counterAdd E (childCounter (obj metric) vals) v = Some c"
      by (cases "counterAdd E (childCounter (obj metric) vals) v") simp_all
    let ?metric = "metric\<lparr>obj := setChild (obj metric) vals c\<rparr>"
    from step add assms have m': "m' = m(name \<mapsto> ?metric)"
      and l: "l = \<lparr>LineName = name,
                   MetricExpo = createMetricLine (Quote E) name (Labels item) (Sprintf_0f v)\<rparr>"
      by simp_all
    have others: "counterOf m' name' vals' = counterOf m name' vals'"
      if "(name', vals') \<noteq> (name, vals)" for name' vals'
      unfolding m' using that metric by (rule counterOf_other)
    have "m' name = Some ?metric" by (simp add: m')
    moreover have "labelValues (variableLabels (obj ?metric)) (Labels item) = Some vals"
      using vals by simp
    moreover have "counterAdd E (counterOf m name vals) v = Some c"
      using add by (simp add: cof)
    moreover have "children (obj ?metric) vals = Some c" by (simp add: setChild_def)
    ultimately show ?thesis using Some l others by blast
  qed
qed





subsection \<open>Where names are checked\<close>

lemma createLoop_refused_name:
  assumes "\<And>labelNames. \<not> Register E name labelNames" and "m name = None"
  shows "\<exists>lg. createLoop E name m items = (m, lg, Some [])
           \<and> length lg = length items
           \<and> set lg \<subseteq> {ErrorParsingMetricValue, ErrorRegisteringMetric}"
proof (induction items)
  case Nil
  show ?case by simp
next
  case (Cons x xs)
  then obtain lg where lg: "createLoop E name m xs = (m, lg, Some [])"
    "length lg = length xs" "set lg \<subseteq> {ErrorParsingMetricValue, ErrorRegisteringMetric}"
    by blast
  have "createItem E name m x
          = (m, Logged (if ParseFloat E (Value x) = None then ErrorParsingMetricValue
                        else ErrorRegisteringMetric))"
    using assms by (auto simp: createItem_def Let_def)
  with lg show ?case by simp
qed

lemma sorted_getKeys:
  "sorted (getKeys labels)"
  by (simp add: getKeys_def)

text \<open>
  The sorted keys of a sample that \<^verbatim>\<open>GetMetricWith\<close> accepts are the label names of the
  vector, when these are sorted.
\<close>

lemma getKeys_of_accepted:
  assumes "GetMetricWith vec labels \<noteq> None" and "distinct (map fst labels)"
    and "distinct (variableLabels vec)" and "sorted (variableLabels vec)"
  shows "getKeys labels = variableLabels vec"
proof -
  from assms(1) have "\<exists>r. GetMetricWith vec labels = Some r" by auto
  then have "fst ` set labels = set (variableLabels vec)"
    using GetMetricWith_Some_iff [OF assms(2,3)] by simp
  then have "set (getKeys labels) = set (variableLabels vec)" by simp
  moreover have "distinct (getKeys labels)" using assms(2) by (rule distinct_getKeys)
  ultimately show ?thesis
    using sorted_getKeys assms(3,4) by (intro sorted_distinct_set_unique)
qed

text \<open>
  Every entry of the map has passed \<^verbatim>\<open>s.registry.Register\<close>, and so have the name and
  the keys of every sample for which a line is returned.
\<close>

lemma createItem_accepted:
  assumes acc: "acceptedRegistry E m" and wf: "wfItem item"
    and step: "createItem E name m item = (m', out)"
  shows "acceptedRegistry E m' \<and> (\<forall>l. out = Line l \<longrightarrow> Register E name (getKeys (Labels item)))"
proof -
  note e = createItem_entry [OF step]
  have line: "Register E name (getKeys (Labels item))" if "out = Line l" for l
  proof (cases "m name")
    case None
    from step that have "\<exists>metric'. m' name = Some metric'"
      using createItem_Line [of E name m item m' l] by auto
    with e None show ?thesis by auto
  next
    case (Some metric)
    with acc have a: "acceptedEntry E name metric" by (simp add: acceptedRegistry_def)
    have "GetMetricWith (obj metric) (Labels item) \<noteq> None"
    proof
      assume "GetMetricWith (obj metric) (Labels item) = None"
      with step that Some show False
        by (auto simp: createItem_def Let_def split: option.splits)
    qed
    then have "getKeys (Labels item) = variableLabels (obj metric)"
      using wf a by (intro getKeys_of_accepted) (simp_all add: wfItem_def acceptedEntry_def)
    with a show ?thesis by (simp add: acceptedEntry_def)
  qed
  have "acceptedEntry E n metric'" if m': "m' n = Some metric'" for n metric'
  proof (cases "n = name")
    case False
    with e m' have "m n = Some metric'" by simp
    with acc show ?thesis by (simp add: acceptedRegistry_def)
  next
    case True
    show ?thesis
    proof (cases "m name")
      case None
      with e m' True have "Register E name (getKeys (Labels item))"
        and "variableLabels (obj metric') = getKeys (Labels item)"
        by auto
      with wf True show ?thesis
        by (simp add: acceptedEntry_def wfItem_def distinct_getKeys sorted_getKeys)
    next
      case (Some metric)
      with e m' True have "variableLabels (obj metric') = variableLabels (obj metric)"
        by auto
      moreover from Some acc have "acceptedEntry E name metric"
        by (simp add: acceptedRegistry_def)
      ultimately show ?thesis using True by (simp add: acceptedEntry_def)
    qed
  qed
  then have "acceptedRegistry E m'" by (simp add: acceptedRegistry_def)
  with line show ?thesis by blast
qed

lemma createLoop_accepted:
  "acceptedRegistry E m \<Longrightarrow> list_all wfItem items \<Longrightarrow>
   createLoop E name m items = (m', lg, r) \<Longrightarrow> acceptedRegistry E m'"
proof (induction items arbitrary: m m' lg r)
  case Nil
  then show ?case by simp
next
  case (Cons x xs)
  obtain m1 out where x: "createItem E name m x = (m1, out)" by (cases "createItem E name m x")
  with Cons.prems have a1: "acceptedRegistry E m1"
    using createItem_accepted [of E m x name m1 out] by simp
  obtain m2 lg2 r2 where l: "createLoop E name m1 xs = (m2, lg2, r2)"
    by (cases "createLoop E name m1 xs")
  have "acceptedRegistry E m2"
    using Cons.IH [of m1 m2 lg2 r2] a1 Cons.prems(2) l by simp
  with x l a1 Cons.prems(3) show ?case by (cases out) auto
qed

lemma updateMetric_accepted:
  assumes "acceptedRegistry E m" and "updateMetric E m f = (m', lg, r)"
  shows "acceptedRegistry E m'"
proof (cases "m (Name f)")
  case None
  with assms show ?thesis by (simp add: updateMetric_def)
next
  case (Some metric)
  obtain vec lg2 r2 where l: "updateLoop E (Name f) (obj metric) (Metrics f) = (vec, lg2, r2)"
    by (cases "updateLoop E (Name f) (obj metric) (Metrics f)")
  then have "variableLabels vec = variableLabels (obj metric)" by (rule updateLoop_labels)
  moreover from Some assms(1) have "acceptedEntry E (Name f) metric"
    by (simp add: acceptedRegistry_def)
  ultimately have "acceptedEntry E (Name f) (metric\<lparr>obj := vec\<rparr>)"
    by (simp add: acceptedEntry_def)
  moreover from Some l assms(2) have "m' = m(Name f \<mapsto> metric\<lparr>obj := vec\<rparr>)"
    by (simp add: updateMetric_def)
  ultimately show ?thesis using assms(1) by (simp add: acceptedRegistry_def)
qed

text \<open>
  C2, as amended. \<^verbatim>\<open>createNewMetric\<close> has no check of names of its own; the one check is
  that of \<^verbatim>\<open>s.registry.Register\<close>, which is called for a sample only while the map has no
  entry for the name of the family, with the name and the sorted keys of that sample.
  \<^item> When the registration is refused, the sample is logged (with the error of the value
    when its value does not parse, which is found first) and the loop goes on with the
    next sample: only this sample is skipped.
  \<^item> When \<^verbatim>\<open>Register\<close> refuses the name with every list of label names, every sample of
    the family is logged, no line is returned and the map is as before; the handler
    writes \<^verbatim>\<open>created metric...\<close> all the same.
  \<^item> A sample whose value parses makes the entry exactly when \<^verbatim>\<open>Register\<close> accepts.
  \<^item> For a name that the map holds, \<^verbatim>\<open>Register\<close> has no part in what Create does.
  \<^item> Every entry of a map that Create and Update have built from the empty one has been
    accepted by \<^verbatim>\<open>Register\<close>, and a line is returned for a sample only if \<^verbatim>\<open>Register\<close>
    accepts the name of the family with the sorted keys of the sample.
  Which names \<^verbatim>\<open>Register\<close> refuses is the rule of the library, not the grammar of the
  specification.
\<close>

theorem createNewMetric_checks_tokens:
  "(m name = None \<and> \<not> Register E name (getKeys (Labels item)) \<longrightarrow>
      createItem E name m item
        = (m, Logged (if ParseFloat E (Value item) = None then ErrorParsingMetricValue
                      else ErrorRegisteringMetric))
      \<and> createLoop E name m (item # rest)
          = (case createLoop E name m rest of
               (m', lg, r) \<Rightarrow>
                 (m', (if ParseFloat E (Value item) = None then ErrorParsingMetricValue
                       else ErrorRegisteringMetric) # lg, r)))
   \<and> (m name = None \<and> (\<forall>labelNames. \<not> Register E name labelNames) \<longrightarrow>
        (\<exists>lg. createNewMetric E m \<lparr>Name = name, Help = h, Type = t, Metrics = items\<rparr>
                = (m, lg, Some [])
           \<and> length lg = length items
           \<and> set lg \<subseteq> {ErrorParsingMetricValue, ErrorRegisteringMetric}
           \<and> createHandler E m [\<lparr>Name = name, Help = h, Type = t, Metrics = items\<rparr>]
               = (m, lg, ''created metric...'' @ [CHR 0x0A, CHR 0x0A], True)))
   \<and> (m name = None \<and> ParseFloat E (Value item) = Some v \<longrightarrow>
        (fst (createItem E name m item) name \<noteq> None
           \<longleftrightarrow> Register E name (getKeys (Labels item))))
   \<and> (m name = Some metric \<longrightarrow>
        createItem (E\<lparr>Register := R\<rparr>) name m item = createItem E name m item)
   \<and> (acceptedRegistry E m \<and> wfItem item \<and> createItem E name m item = (mi, out) \<longrightarrow>
        acceptedRegistry E mi
        \<and> (\<forall>l. out = Line l \<longrightarrow> Register E name (getKeys (Labels item))))
   \<and> (acceptedRegistry E m \<and> list_all wfItem (Metrics f)
        \<and> createNewMetric E m f = (mf, lgf, rf) \<longrightarrow>
        acceptedRegistry E mf)
   \<and> (acceptedRegistry E m \<and> updateMetric E m f = (mu, lgu, lsu) \<longrightarrow>
        acceptedRegistry E mu)
   \<and> acceptedRegistry E Map.empty"
proof (intro conjI impI)
  assume h: "m name = None \<and> \<not> Register E name (getKeys (Labels item))"
  then show step: "createItem E name m item
        = (m, Logged (if ParseFloat E (Value item) = None then ErrorParsingMetricValue
                      else ErrorRegisteringMetric))"
    by (auto simp: createItem_def Let_def)
  then show "createLoop E name m (item # rest)
          = (case createLoop E name m rest of
               (m', lg, r) \<Rightarrow>
                 (m', (if ParseFloat E (Value item) = None then ErrorParsingMetricValue
                       else ErrorRegisteringMetric) # lg, r))"
    by simp
next
  assume h: "m name = None \<and> (\<forall>labelNames. \<not> Register E name labelNames)"
  then obtain lg where lg: "createLoop E name m items = (m, lg, Some [])"
    "length lg = length items" "set lg \<subseteq> {ErrorParsingMetricValue, ErrorRegisteringMetric}"
    using createLoop_refused_name [of E name m items] by blast
  then have "createNewMetric E m \<lparr>Name = name, Help = h, Type = t, Metrics = items\<rparr>
                = (m, lg, Some [])"
    by (simp add: createNewMetric_def)
  moreover from this
  have "createHandler E m [\<lparr>Name = name, Help = h, Type = t, Metrics = items\<rparr>]
               = (m, lg, ''created metric...'' @ [CHR 0x0A, CHR 0x0A], True)"
    by simp
  ultimately show "\<exists>lg. createNewMetric E m \<lparr>Name = name, Help = h, Type = t, Metrics = items\<rparr>
                = (m, lg, Some [])
           \<and> length lg = length items
           \<and> set lg \<subseteq> {ErrorParsingMetricValue, ErrorRegisteringMetric}
           \<and> createHandler E m [\<lparr>Name = name, Help = h, Type = t, Metrics = items\<rparr>]
               = (m, lg, ''created metric...'' @ [CHR 0x0A, CHR 0x0A], True)"
    using lg(2,3) by blast
next
  assume h: "m name = None \<and> ParseFloat E (Value item) = Some v"
  show "fst (createItem E name m item) name \<noteq> None
          \<longleftrightarrow> Register E name (getKeys (Labels item))"
  proof (cases "Register E name (getKeys (Labels item))")
    case True
    with h show ?thesis
      using createItem_registers [of m name E item v] by auto
  next
    case False
    with h show ?thesis by (simp add: createItem_def Let_def)
  qed
next
  assume "m name = Some metric"
  then show "createItem (E\<lparr>Register := R\<rparr>) name m item = createItem E name m item"
    by (simp add: createItem_def Let_def counterAdd_def split: option.splits prod.splits)
next
  assume h: "acceptedRegistry E m \<and> wfItem item \<and> createItem E name m item = (mi, out)"
  then show "acceptedRegistry E mi"
    using createItem_accepted [of E m item name mi out] by simp
  from h show "\<forall>l. out = Line l \<longrightarrow> Register E name (getKeys (Labels item))"
    using createItem_accepted [of E m item name mi out] by simp
next
  assume "acceptedRegistry E m \<and> list_all wfItem (Metrics f)
        \<and> createNewMetric E m f = (mf, lgf, rf)"
  then show "acceptedRegistry E mf"
    using createLoop_accepted [of E m "Metrics f" "Name f" mf lgf rf]
    by (simp add: createNewMetric_def)
next
  assume "acceptedRegistry E m \<and> updateMetric E m f = (mu, lgu, lsu)"
  then show "acceptedRegistry E mu"
    using updateMetric_accepted [of E m f mu lgu lsu] by simp
next
  show "acceptedRegistry E Map.empty"
    by (simp add: acceptedRegistry_def)
qed

text \<open>
  The family whose name is the empty string: \<^verbatim>\<open>Register\<close> refuses the name, both samples
  are logged and nothing is registered. A sample with an empty label key for a new
  family: it is logged and the sample after it is recorded. The sample of the example on
  the registry that holds its family: a line is returned, and \<^verbatim>\<open>Register\<close> accepts the
  name with the sorted keys.
\<close>

theorem createNewMetric_checks_tokens_witness:
  "(Map.empty :: registry) '''' = None
   \<and> (\<forall>labelNames. \<not> Register exampleEnv '''' labelNames)
   \<and> createNewMetric exampleEnv Map.empty familyNoName
       = (Map.empty, [ErrorRegisteringMetric, ErrorParsingMetricValue], Some [])
   \<and> createHandler exampleEnv Map.empty [familyNoName]
       = (Map.empty, [ErrorRegisteringMetric, ErrorParsingMetricValue],
          ''created metric...'' @ [CHR 0x0A, CHR 0x0A], True)
   \<and> \<not> Register exampleEnv ''requests_total'' (getKeys (Labels sampleNoKey))
   \<and> createItem exampleEnv ''requests_total'' Map.empty sampleNoKey
       = (Map.empty, Logged ErrorRegisteringMetric)
   \<and> createLoop exampleEnv ''requests_total'' Map.empty [sampleNoKey, sampleA ''5'']
       = (registryA 5, [ErrorRegisteringMetric], Some [lineA ''5''])
   \<and> acceptedRegistry exampleEnv (registryA 5) \<and> wfItem (sampleA ''3'')
   \<and> createItem exampleEnv ''requests_total'' (registryA 5) (sampleA ''3'')
       = (registryA 8, Line (lineA ''3''))
   \<and> Register exampleEnv ''requests_total'' (getKeys (Labels (sampleA ''3'')))
   \<and> acceptedRegistry exampleEnv (registryA 8)"
proof -
  note defs = example_defs familyNoName_def sampleNoKey_def
  have n1: "(Map.empty :: registry) '''' = None" by simp
  have n2: "\<forall>labelNames. \<not> Register exampleEnv '''' labelNames"
    by (simp add: exampleEnv_def RegisterLegacy_def validMetricName_def)
  have n3: "createNewMetric exampleEnv Map.empty familyNoName
       = (Map.empty, [ErrorRegisteringMetric, ErrorParsingMetricValue], Some [])"
    by (simp add: defs)
  have n4: "createHandler exampleEnv Map.empty [familyNoName]
       = (Map.empty, [ErrorRegisteringMetric, ErrorParsingMetricValue],
          ''created metric...'' @ [CHR 0x0A, CHR 0x0A], True)"
    using createNewMetric_checks_tokens
      [where E = exampleEnv and m = Map.empty and name = "''''" and h = "''''"
         and t = "''counter''" and items = "[sampleA ''1'', sampleA ''abc'']",
       THEN conjunct2, THEN conjunct1, THEN mp, OF conjI [OF n1 n2]]
      n3
    by (auto simp: familyNoName_def)
  have k1: "\<not> Register exampleEnv ''requests_total'' (getKeys (Labels sampleNoKey))"
    by (simp add: defs)
  have k2: "createItem exampleEnv ''requests_total'' Map.empty sampleNoKey
       = (Map.empty, Logged ErrorRegisteringMetric)"
    using createNewMetric_checks_tokens
      [where E = exampleEnv and m = Map.empty and name = "''requests_total''"
         and item = sampleNoKey, THEN conjunct1, THEN mp, OF conjI [OF _ k1]]
    by (simp add: defs)
  have k3: "createLoop exampleEnv ''requests_total'' Map.empty [sampleNoKey, sampleA ''5'']
       = (registryA 5, [ErrorRegisteringMetric], Some [lineA ''5''])"
    by (simp add: defs)
  have a1: "acceptedRegistry exampleEnv (registryA 5)"
    by (simp add: acceptedRegistry_def acceptedEntry_def defs)
  have a2: "wfItem (sampleA ''3'')" by (simp add: wfItem_def sampleA_def)
  have a3: "createItem exampleEnv ''requests_total'' (registryA 5) (sampleA ''3'')
       = (registryA 8, Line (lineA ''3''))"
    by (simp add: defs)
  have a4: "acceptedRegistry exampleEnv (registryA 8)
            \<and> (\<forall>l. Line (lineA ''3'') = Line l \<longrightarrow>
                  Register exampleEnv ''requests_total'' (getKeys (Labels (sampleA ''3''))))"
    using createNewMetric_checks_tokens
      [where E = exampleEnv and m = "registryA 5" and name = "''requests_total''"
         and item = "sampleA ''3''" and mi = "registryA 8" and out = "Line (lineA ''3'')",
       THEN conjunct2, THEN conjunct2, THEN conjunct2, THEN conjunct2, THEN conjunct1,
       THEN mp, OF conjI [OF a1 conjI [OF a2 a3]]]
    .
  then have a5: "Register exampleEnv ''requests_total'' (getKeys (Labels (sampleA ''3'')))"
    and a6: "acceptedRegistry exampleEnv (registryA 8)"
    by simp_all
  from n1 n2 n3 n4 k1 k2 k3 a1 a2 a3 a5 a6 show ?thesis
    by blast
qed

text \<open>
  C2 as stated fails: the metric name \<^verbatim>\<open>a:b\<close> does not match
  \<^verbatim>\<open>[a-zA-Z_][a-zA-Z0-9_]*\<close>, yet Create registers the family, records the sample and
  returns its line.
\<close>

theorem createNewMetric_colon_name_counterexample:
  "\<not> validateToken ''a:b''
   \<and> createNewMetric exampleEnv Map.empty familyColon = (registryColon, [], Some [lineColon])
   \<and> createHandler exampleEnv Map.empty [familyColon]
       = (registryColon, [], ''created metric...'' @ [CHR 0x0A] @ MetricExpo lineColon
            @ [CHR 0x0A], True)"
  by (simp add: example_defs familyColon_def registryColon_def lineColon_def)

end
